theory Spec2Isabelle
  imports Main "HOL-Library.Word"
begin

section \<open>The host runtime as seen from the binding layer\<close>

text \<open>
  The binding layer of \<^verbatim>\<open>pytypes\<close> (\<^verbatim>\<open>src/unnamed/part_000\<close>) and
  \<^verbatim>\<open>detail/internals.cpp\<close> manipulates objects of the host runtime through raw
  pointers. A pointer is an address; the null pointer is address 0.
\<close>

type_synonym ptr = nat

abbreviation NULL :: ptr where
  "NULL \<equiv> 0"

text \<open>\<^verbatim>\<open>ssize_t\<close> and \<^verbatim>\<open>size_t\<close> are 64-bit; a cast between them keeps the bits.\<close>

type_synonym ssize_t = "64 word"
type_synonym size_t = "64 word"

text \<open>
  The part of the runtime's state the layer observes: the reference count of every
  object, the objects whose count reached zero and were deallocated, the error indicator
  (a triple of type, value and traceback, all null when no error is pending), and the
  contents the runtime keeps for its own objects (slots of containers, what an iterator
  has still to produce), which only calls into the runtime read or write.
\<close>

record rt =
  ob_refcnt :: "ptr \<Rightarrow> int"
  deallocated :: "ptr set"
  curexc_type :: ptr
  curexc_value :: ptr
  curexc_traceback :: ptr
  ob_items :: "ptr \<Rightarrow> ptr list"

subsection \<open>Reference counting and the error indicator\<close>

text \<open>
  \<^verbatim>\<open>Py_XINCREF\<close> and \<^verbatim>\<open>Py_XDECREF\<close> do nothing on a null pointer. A decrement
  that reaches zero deallocates the object.
\<close>

definition Py_XINCREF :: "ptr \<Rightarrow> rt \<Rightarrow> rt" where
  "Py_XINCREF p s =
     (if p = NULL then s else s\<lparr>ob_refcnt := (ob_refcnt s)(p := ob_refcnt s p + 1)\<rparr>)"

definition Py_XDECREF :: "ptr \<Rightarrow> rt \<Rightarrow> rt" where
  "Py_XDECREF p s =
     (if p = NULL then s
      else let n = ob_refcnt s p - 1 in
        s\<lparr>ob_refcnt := (ob_refcnt s)(p := n),
          deallocated := (if n = 0 then insert p (deallocated s) else deallocated s)\<rparr>)"

text \<open>
  \<^verbatim>\<open>PyErr_Occurred\<close> reads the type slot of the indicator. \<^verbatim>\<open>PyErr_Fetch\<close> moves
  the triple out to the caller and clears the indicator. \<^verbatim>\<open>PyErr_Restore\<close> stores
  the triple it is given, taking over the caller's references, and drops the references
  the indicator held before; with three null pointers it clears the indicator, which is
  what \<^verbatim>\<open>PyErr_Clear\<close> does.
\<close>

definition PyErr_Occurred :: "rt \<Rightarrow> ptr" where
  "PyErr_Occurred s = curexc_type s"

definition PyErr_Fetch :: "rt \<Rightarrow> (ptr \<times> ptr \<times> ptr) \<times> rt" where
  "PyErr_Fetch s =
     ((curexc_type s, curexc_value s, curexc_traceback s),
      s\<lparr>curexc_type := NULL, curexc_value := NULL, curexc_traceback := NULL\<rparr>)"

definition PyErr_Restore :: "ptr \<Rightarrow> ptr \<Rightarrow> ptr \<Rightarrow> rt \<Rightarrow> rt" where
  "PyErr_Restore t v tb s =
     (let oldtype = curexc_type s; oldvalue = curexc_value s;
          oldtraceback = curexc_traceback s;
          s1 = s\<lparr>curexc_type := t, curexc_value := v, curexc_traceback := tb\<rparr>
      in Py_XDECREF oldtraceback (Py_XDECREF oldvalue (Py_XDECREF oldtype s1)))"

definition PyErr_Clear :: "rt \<Rightarrow> rt" where
  "PyErr_Clear s = PyErr_Restore NULL NULL NULL s"

subsection \<open>Calls whose answer depends on the runtime's objects\<close>

text \<open>
  Every other runtime call the layer makes is a parameter: a function from the state to
  its return value and the new state. A theorem about the layer then holds whatever the
  runtime answers. The macro \<^verbatim>\<open>PY_VERSION_HEX\<close> and the exception type objects are
  constants of the runtime. \<^verbatim>\<open>detail::error_string\<close>, which builds the message of
  an \<^verbatim>\<open>error_already_set\<close>, belongs to the layer but is defined outside the files
  at hand, so it is a parameter too.
\<close>

record py_api =
  error_string :: "rt \<Rightarrow> string \<times> rt"
  PyObject_HasAttr :: "ptr \<Rightarrow> ptr \<Rightarrow> rt \<Rightarrow> int \<times> rt"
  PyObject_HasAttrString :: "ptr \<Rightarrow> string \<Rightarrow> rt \<Rightarrow> int \<times> rt"
  PyObject_DelAttr :: "ptr \<Rightarrow> ptr \<Rightarrow> rt \<Rightarrow> int \<times> rt"
  PyObject_DelAttrString :: "ptr \<Rightarrow> string \<Rightarrow> rt \<Rightarrow> int \<times> rt"
  PyObject_GetAttr :: "ptr \<Rightarrow> ptr \<Rightarrow> rt \<Rightarrow> ptr \<times> rt"
  PyObject_GetAttrString :: "ptr \<Rightarrow> string \<Rightarrow> rt \<Rightarrow> ptr \<times> rt"
  PyObject_SetAttr :: "ptr \<Rightarrow> ptr \<Rightarrow> ptr \<Rightarrow> rt \<Rightarrow> int \<times> rt"
  PyObject_SetAttrString :: "ptr \<Rightarrow> string \<Rightarrow> ptr \<Rightarrow> rt \<Rightarrow> int \<times> rt"
  PySequence_SetItem :: "ptr \<Rightarrow> ssize_t \<Rightarrow> ptr \<Rightarrow> rt \<Rightarrow> int \<times> rt"
  PyList_SetItem :: "ptr \<Rightarrow> ssize_t \<Rightarrow> ptr \<Rightarrow> rt \<Rightarrow> int \<times> rt"
  PyTuple_SetItem :: "ptr \<Rightarrow> ssize_t \<Rightarrow> ptr \<Rightarrow> rt \<Rightarrow> int \<times> rt"
  PyIter_Next :: "ptr \<Rightarrow> rt \<Rightarrow> ptr \<times> rt"
  PY_VERSION_HEX :: nat
  PyObject_Length :: "ptr \<Rightarrow> rt \<Rightarrow> ssize_t \<times> rt"
  PyObject_LengthHint :: "ptr \<Rightarrow> ssize_t \<Rightarrow> rt \<Rightarrow> ssize_t \<times> rt"
  PyErr_SetString :: "ptr \<Rightarrow> string \<Rightarrow> rt \<Rightarrow> rt"
  PyExc_MemoryError :: ptr
  PyExc_ValueError :: ptr
  PyExc_IndexError :: ptr
  PyExc_RuntimeError :: ptr

section \<open>Handles and owning references\<close>

text \<open>
  A \<^verbatim>\<open>handle\<close> wraps one raw pointer and owns nothing. An \<^verbatim>\<open>object\<close> is a handle
  that owns one reference to what it points at; it has the same single field.
\<close>

record handle =
  m_ptr :: ptr

type_synonym object = handle

definition handle_null :: handle where
  "handle_null = \<lparr>m_ptr = NULL\<rparr>"

definition inc_ref :: "handle \<Rightarrow> rt \<Rightarrow> rt" where
  "inc_ref h s = Py_XINCREF (m_ptr h) s"

definition dec_ref :: "handle \<Rightarrow> rt \<Rightarrow> rt" where
  "dec_ref h s = Py_XDECREF (m_ptr h) s"

text \<open>\<^verbatim>\<open>object(handle h, borrowed_t)\<close> increments; \<^verbatim>\<open>object(handle h, stolen_t)\<close> does not.\<close>

definition reinterpret_borrow :: "handle \<Rightarrow> rt \<Rightarrow> object \<times> rt" where
  "reinterpret_borrow h s = (\<lparr>m_ptr = m_ptr h\<rparr>, inc_ref h s)"

definition reinterpret_steal :: "handle \<Rightarrow> object" where
  "reinterpret_steal h = \<lparr>m_ptr = m_ptr h\<rparr>"

text \<open>\<^verbatim>\<open>object::release\<close>: the handle to the old pointer, and the object emptied.\<close>

definition release :: "object \<Rightarrow> handle \<times> object" where
  "release this = (let tmp = m_ptr this in (\<lparr>m_ptr = tmp\<rparr>, this\<lparr>m_ptr := NULL\<rparr>))"

text \<open>
  \<^verbatim>\<open>object::operator=(const object &other)\<close>: \<^verbatim>\<open>other.inc_ref(); dec_ref();
  m_ptr = other.m_ptr\<close>. The result is the assigned-to object and the new state.
\<close>

definition copy_assign :: "object \<Rightarrow> object \<Rightarrow> rt \<Rightarrow> object \<times> rt" where
  "copy_assign this other s =
     (let s1 = inc_ref other s;
          s2 = dec_ref this s1
      in (this\<lparr>m_ptr := m_ptr other\<rparr>, s2))"

text \<open>
  \<^verbatim>\<open>object::operator=(object &&other)\<close> where \<^verbatim>\<open>other\<close> is a temporary (so
  \<^verbatim>\<open>this != &other\<close>): the old pointer is kept aside, the new one taken, the old one
  decremented. The temporary is left null, and its destructor does nothing.
\<close>

definition move_assign :: "object \<Rightarrow> object \<Rightarrow> rt \<Rightarrow> object \<times> rt" where
  "move_assign this other s =
     (let temp = \<lparr>m_ptr = m_ptr this\<rparr>
      in (this\<lparr>m_ptr := m_ptr other\<rparr>, dec_ref temp s))"

section \<open>The error bridge\<close>

record error_already_set =
  what :: string
  m_type :: object
  m_value :: object
  m_trace :: object

text \<open>
  What the layer throws: an \<^verbatim>\<open>error_already_set\<close>, or the exception of
  \<^verbatim>\<open>pybind11_fail\<close>, which carries a reason.
\<close>

datatype exn = Error_already_set error_already_set | Pybind11_fail string

text \<open>
  The constructor: the message comes from \<^verbatim>\<open>detail::error_string()\<close>, then
  \<^verbatim>\<open>PyErr_Fetch\<close> writes the three slots.
\<close>

definition error_already_set_ctor :: "py_api \<Rightarrow> rt \<Rightarrow> error_already_set \<times> rt" where
  "error_already_set_ctor api s =
     (case error_string api s of (msg, s1) \<Rightarrow>
        (case PyErr_Fetch s1 of ((t, v, tb), s2) \<Rightarrow>
           (\<lparr>what = msg, m_type = \<lparr>m_ptr = t\<rparr>, m_value = \<lparr>m_ptr = v\<rparr>,
             m_trace = \<lparr>m_ptr = tb\<rparr>\<rparr>, s2)))"

text \<open>
  \<^verbatim>\<open>restore\<close>: each slot is released and the three pointers go to
  \<^verbatim>\<open>PyErr_Restore\<close>.
\<close>

definition restore :: "error_already_set \<Rightarrow> rt \<Rightarrow> error_already_set \<times> rt" where
  "restore e s =
     (case release (m_type e) of (ht, t') \<Rightarrow>
      case release (m_value e) of (hv, v') \<Rightarrow>
      case release (m_trace e) of (htb, tb') \<Rightarrow>
        (e\<lparr>m_type := t', m_value := v', m_trace := tb'\<rparr>,
         PyErr_Restore (m_ptr ht) (m_ptr hv) (m_ptr htb) s))"

text \<open>
  Modelled from the spec: \<^verbatim>\<open>pybind11_fail(reason)\<close> is declared outside the files at
  hand. The spec calls its use failing fatally, by raising: it never returns and throws
  an exception that carries the reason.
\<close>

definition pybind11_fail :: "string \<Rightarrow> rt \<Rightarrow> (exn + 'a) \<times> rt" where
  "pybind11_fail reason s = (Inl (Pybind11_fail reason), s)"

text \<open>\<^verbatim>\<open>throw error_already_set()\<close>.\<close>

definition throw_error_already_set :: "py_api \<Rightarrow> rt \<Rightarrow> (exn + 'a) \<times> rt" where
  "throw_error_already_set api s =
     (case error_already_set_ctor api s of (e, s1) \<Rightarrow> (Inl (Error_already_set e), s1))"

section \<open>Builtins on attributes\<close>

text \<open>
  Every function of the layer returns its outcome, \<open>Inl\<close> for a thrown exception and
  \<open>Inr\<close> for a normal return, together with the runtime state it leaves. The two
  overloads of each builtin take the attribute name as a handle or as a C string.
\<close>

definition hasattr :: "py_api \<Rightarrow> handle \<Rightarrow> handle \<Rightarrow> rt \<Rightarrow> (exn + bool) \<times> rt" where
  "hasattr api obj name s =
     (case PyObject_HasAttr api (m_ptr obj) (m_ptr name) s of (r, s1) \<Rightarrow> (Inr (r = 1), s1))"

definition hasattr_str :: "py_api \<Rightarrow> handle \<Rightarrow> string \<Rightarrow> rt \<Rightarrow> (exn + bool) \<times> rt" where
  "hasattr_str api obj name s =
     (case PyObject_HasAttrString api (m_ptr obj) name s of (r, s1) \<Rightarrow> (Inr (r = 1), s1))"

definition delattr :: "py_api \<Rightarrow> handle \<Rightarrow> handle \<Rightarrow> rt \<Rightarrow> (exn + unit) \<times> rt" where
  "delattr api obj name s =
     (case PyObject_DelAttr api (m_ptr obj) (m_ptr name) s of (r, s1) \<Rightarrow>
        if r \<noteq> 0 then throw_error_already_set api s1 else (Inr (), s1))"

definition delattr_str :: "py_api \<Rightarrow> handle \<Rightarrow> string \<Rightarrow> rt \<Rightarrow> (exn + unit) \<times> rt" where
  "delattr_str api obj name s =
     (case PyObject_DelAttrString api (m_ptr obj) name s of (r, s1) \<Rightarrow>
        if r \<noteq> 0 then throw_error_already_set api s1 else (Inr (), s1))"

definition getattr :: "py_api \<Rightarrow> handle \<Rightarrow> handle \<Rightarrow> rt \<Rightarrow> (exn + object) \<times> rt" where
  "getattr api obj name s =
     (case PyObject_GetAttr api (m_ptr obj) (m_ptr name) s of (result, s1) \<Rightarrow>
        if result = NULL then throw_error_already_set api s1
        else (Inr (reinterpret_steal \<lparr>m_ptr = result\<rparr>), s1))"

definition getattr_str :: "py_api \<Rightarrow> handle \<Rightarrow> string \<Rightarrow> rt \<Rightarrow> (exn + object) \<times> rt" where
  "getattr_str api obj name s =
     (case PyObject_GetAttrString api (m_ptr obj) name s of (result, s1) \<Rightarrow>
        if result = NULL then throw_error_already_set api s1
        else (Inr (reinterpret_steal \<lparr>m_ptr = result\<rparr>), s1))"

text \<open>The overloads of \<^verbatim>\<open>getattr\<close> with a default.\<close>

definition getattr_default ::
  "py_api \<Rightarrow> handle \<Rightarrow> handle \<Rightarrow> handle \<Rightarrow> rt \<Rightarrow> (exn + object) \<times> rt" where
  "getattr_default api obj name dflt s =
     (case PyObject_GetAttr api (m_ptr obj) (m_ptr name) s of (result, s1) \<Rightarrow>
        if result \<noteq> NULL then (Inr (reinterpret_steal \<lparr>m_ptr = result\<rparr>), s1)
        else (case reinterpret_borrow dflt (PyErr_Clear s1) of (ob, s2) \<Rightarrow> (Inr ob, s2)))"

definition getattr_str_default ::
  "py_api \<Rightarrow> handle \<Rightarrow> string \<Rightarrow> handle \<Rightarrow> rt \<Rightarrow> (exn + object) \<times> rt" where
  "getattr_str_default api obj name dflt s =
     (case PyObject_GetAttrString api (m_ptr obj) name s of (result, s1) \<Rightarrow>
        if result \<noteq> NULL then (Inr (reinterpret_steal \<lparr>m_ptr = result\<rparr>), s1)
        else (case reinterpret_borrow dflt (PyErr_Clear s1) of (ob, s2) \<Rightarrow> (Inr ob, s2)))"

definition setattr :: "py_api \<Rightarrow> handle \<Rightarrow> handle \<Rightarrow> handle \<Rightarrow> rt \<Rightarrow> (exn + unit) \<times> rt" where
  "setattr api obj name val s =
     (case PyObject_SetAttr api (m_ptr obj) (m_ptr name) (m_ptr val) s of (r, s1) \<Rightarrow>
        if r \<noteq> 0 then throw_error_already_set api s1 else (Inr (), s1))"

definition setattr_str :: "py_api \<Rightarrow> handle \<Rightarrow> string \<Rightarrow> handle \<Rightarrow> rt \<Rightarrow> (exn + unit) \<times> rt" where
  "setattr_str api obj name val s =
     (case PyObject_SetAttrString api (m_ptr obj) name (m_ptr val) s of (r, s1) \<Rightarrow>
        if r \<noteq> 0 then throw_error_already_set api s1 else (Inr (), s1))"

section \<open>Accessor policies: positional set\<close>

text \<open>
  \<^verbatim>\<open>sequence_item::set\<close> passes the value as it is. \<^verbatim>\<open>list_item::set\<close> and
  \<^verbatim>\<open>tuple_item::set\<close> pass \<^verbatim>\<open>val.inc_ref().ptr()\<close>: the increment happens while
  the arguments are evaluated, before the call. The index is cast to \<^verbatim>\<open>ssize_t\<close>.
\<close>

definition sequence_item_set ::
  "py_api \<Rightarrow> handle \<Rightarrow> size_t \<Rightarrow> handle \<Rightarrow> rt \<Rightarrow> (exn + unit) \<times> rt" where
  "sequence_item_set api obj index val s =
     (case PySequence_SetItem api (m_ptr obj) index (m_ptr val) s of (r, s1) \<Rightarrow>
        if r \<noteq> 0 then throw_error_already_set api s1 else (Inr (), s1))"

definition list_item_set ::
  "py_api \<Rightarrow> handle \<Rightarrow> size_t \<Rightarrow> handle \<Rightarrow> rt \<Rightarrow> (exn + unit) \<times> rt" where
  "list_item_set api obj index val s =
     (let s0 = inc_ref val s in
      case PyList_SetItem api (m_ptr obj) index (m_ptr val) s0 of (r, s1) \<Rightarrow>
        if r \<noteq> 0 then throw_error_already_set api s1 else (Inr (), s1))"

definition tuple_item_set ::
  "py_api \<Rightarrow> handle \<Rightarrow> size_t \<Rightarrow> handle \<Rightarrow> rt \<Rightarrow> (exn + unit) \<times> rt" where
  "tuple_item_set api obj index val s =
     (let s0 = inc_ref val s in
      case PyTuple_SetItem api (m_ptr obj) index (m_ptr val) s0 of (r, s1) \<Rightarrow>
        if r \<noteq> 0 then throw_error_already_set api s1 else (Inr (), s1))"

section \<open>The iterator over a host object\<close>

text \<open>
  An \<^verbatim>\<open>iterator\<close> is an object (the runtime's iterator) with a cache of the element
  produced last, the member \<^verbatim>\<open>value\<close>. The methods that change the iterator return it
  next to their outcome, since the change stays when they throw.
\<close>

record iterator = handle +
  iter_value :: object

definition sentinel :: iterator where
  "sentinel = \<lparr>m_ptr = NULL, iter_value = handle_null\<rparr>"

text \<open>
  \<^verbatim>\<open>advance\<close>: the next element is move-assigned to the cache, then a pending error
  is thrown.
\<close>

definition advance :: "py_api \<Rightarrow> iterator \<Rightarrow> rt \<Rightarrow> (exn + unit) \<times> iterator \<times> rt" where
  "advance api this s =
     (case PyIter_Next api (m_ptr this) s of (p, s1) \<Rightarrow>
      case move_assign (iter_value this) (reinterpret_steal \<lparr>m_ptr = p\<rparr>) s1 of (v, s2) \<Rightarrow>
        if PyErr_Occurred s2 \<noteq> NULL
        then (case error_already_set_ctor api s2 of (e, s3) \<Rightarrow>
                (Inl (Error_already_set e), this\<lparr>iter_value := v\<rparr>, s3))
        else (Inr (), this\<lparr>iter_value := v\<rparr>, s2))"

text \<open>\<^verbatim>\<open>operator*\<close> advances first when the iterator is set and the cache is empty.\<close>

definition deref :: "py_api \<Rightarrow> iterator \<Rightarrow> rt \<Rightarrow> (exn + object) \<times> iterator \<times> rt" where
  "deref api this s =
     (if m_ptr this \<noteq> NULL \<and> m_ptr (iter_value this) = NULL
      then (case advance api this s of
              (Inl e, this', s1) \<Rightarrow> (Inl e, this', s1)
            | (Inr u, this', s1) \<Rightarrow> (Inr (iter_value this'), this', s1))
      else (Inr (iter_value this), this, s))"

text \<open>
  \<^verbatim>\<open>operator==\<close> is \<^verbatim>\<open>a->ptr() == b->ptr()\<close>, and \<^verbatim>\<open>operator->\<close> goes through
  \<^verbatim>\<open>operator*\<close>. The left operand is evaluated first here.
\<close>

definition iterator_eq ::
  "py_api \<Rightarrow> iterator \<Rightarrow> iterator \<Rightarrow> rt \<Rightarrow> (exn + bool) \<times> iterator \<times> iterator \<times> rt" where
  "iterator_eq api a b s =
     (case deref api a s of
        (Inl e, a', s1) \<Rightarrow> (Inl e, a', b, s1)
      | (Inr va, a', s1) \<Rightarrow>
          (case deref api b s1 of
             (Inl e, b', s2) \<Rightarrow> (Inl e, a', b', s2)
           | (Inr vb, b', s2) \<Rightarrow> (Inr (m_ptr va = m_ptr vb), a', b', s2)))"

section \<open>Lengths\<close>

text \<open>
  \<^verbatim>\<open>len_hint\<close> asks \<^verbatim>\<open>PyObject_LengthHint(h, 0)\<close> from version 3.4 of the runtime
  (\<^verbatim>\<open>PY_VERSION_HEX >= 0x03040000\<close>, that is 50593792) and \<^verbatim>\<open>PyObject_Length\<close>
  before. The comparison \<^verbatim>\<open>result < 0\<close> is signed.
\<close>

definition len :: "py_api \<Rightarrow> handle \<Rightarrow> rt \<Rightarrow> (exn + size_t) \<times> rt" where
  "len api h s =
     (case PyObject_Length api (m_ptr h) s of (result, s1) \<Rightarrow>
        if result <s 0 then pybind11_fail ''Unable to compute length of object'' s1
        else (Inr result, s1))"

definition len_hint :: "py_api \<Rightarrow> handle \<Rightarrow> rt \<Rightarrow> (exn + size_t) \<times> rt" where
  "len_hint api h s =
     (case (if 50593792 \<le> PY_VERSION_HEX api then PyObject_LengthHint api (m_ptr h) 0 s
            else PyObject_Length api (m_ptr h) s) of (result, s1) \<Rightarrow>
        if result <s 0 then (Inr 0, PyErr_Clear s1)
        else (Inr result, s1))"

section \<open>Constructors that allocate\<close>

text \<open>
  The allocation calls of the runtime; each returns the new object or null.
  A C string is a \<open>string\<close>, a \<^verbatim>\<open>double\<close> its 64 bits, a \<^verbatim>\<open>void *\<close> or a
  function pointer an address, an optional C string an \<open>option\<close>.
\<close>

record py_alloc =
  PyUnicode_FromStringAndSize :: "string \<Rightarrow> ssize_t \<Rightarrow> rt \<Rightarrow> ptr \<times> rt"
  PyUnicode_FromString :: "string \<Rightarrow> rt \<Rightarrow> ptr \<times> rt"
  PYBIND11_BYTES_FROM_STRING :: "string \<Rightarrow> rt \<Rightarrow> ptr \<times> rt"
  PYBIND11_BYTES_FROM_STRING_AND_SIZE :: "string \<Rightarrow> ssize_t \<Rightarrow> rt \<Rightarrow> ptr \<times> rt"
  PyLong_FromLong :: "int \<Rightarrow> rt \<Rightarrow> ptr \<times> rt"
  PyFloat_FromDouble :: "64 word \<Rightarrow> rt \<Rightarrow> ptr \<times> rt"
  PyWeakref_NewRef :: "ptr \<Rightarrow> ptr \<Rightarrow> rt \<Rightarrow> ptr \<times> rt"
  PyCapsule_New :: "ptr \<Rightarrow> string option \<Rightarrow> ptr \<Rightarrow> rt \<Rightarrow> ptr \<times> rt"
  PyTuple_New :: "ssize_t \<Rightarrow> rt \<Rightarrow> ptr \<times> rt"
  PyDict_New :: "rt \<Rightarrow> ptr \<times> rt"
  PyList_New :: "ssize_t \<Rightarrow> rt \<Rightarrow> ptr \<times> rt"
  PySet_New :: "ptr \<Rightarrow> rt \<Rightarrow> ptr \<times> rt"

text \<open>
  \<^verbatim>\<open>if (!m_ptr) pybind11_fail(reason)\<close> in a constructor body, after the base
  \<^verbatim>\<open>object(p, stolen_t{})\<close> has stored the pointer.
\<close>

definition fail_if_null :: "string \<Rightarrow> ptr \<times> rt \<Rightarrow> (exn + object) \<times> rt" where
  "fail_if_null reason r =
     (case r of (p, s) \<Rightarrow>
        let this = reinterpret_steal \<lparr>m_ptr = p\<rparr> in
        if m_ptr this = NULL then pybind11_fail reason s else (Inr this, s))"

definition str_ctor_n :: "py_alloc \<Rightarrow> string \<Rightarrow> size_t \<Rightarrow> rt \<Rightarrow> (exn + object) \<times> rt" where
  "str_ctor_n al c n s =
     fail_if_null ''Could not allocate string object!'' (PyUnicode_FromStringAndSize al c n s)"

definition str_ctor :: "py_alloc \<Rightarrow> string \<Rightarrow> rt \<Rightarrow> (exn + object) \<times> rt" where
  "str_ctor al c s =
     fail_if_null ''Could not allocate string object!'' (PyUnicode_FromString al c s)"

definition bytes_ctor :: "py_alloc \<Rightarrow> string \<Rightarrow> rt \<Rightarrow> (exn + object) \<times> rt" where
  "bytes_ctor al c s =
     fail_if_null ''Could not allocate bytes object!'' (PYBIND11_BYTES_FROM_STRING al c s)"

definition bytes_ctor_n :: "py_alloc \<Rightarrow> string \<Rightarrow> size_t \<Rightarrow> rt \<Rightarrow> (exn + object) \<times> rt" where
  "bytes_ctor_n al c n s =
     fail_if_null ''Could not allocate bytes object!''
       (PYBIND11_BYTES_FROM_STRING_AND_SIZE al c n s)"

text \<open>\<^verbatim>\<open>int_::int_() : object(PyLong_FromLong(0), stolen_t{}) { }\<close> has an empty body.\<close>

definition int_ctor :: "py_alloc \<Rightarrow> rt \<Rightarrow> (exn + object) \<times> rt" where
  "int_ctor al s =
     (case PyLong_FromLong al 0 s of (p, s1) \<Rightarrow> (Inr (reinterpret_steal \<lparr>m_ptr = p\<rparr>), s1))"

definition float_ctor :: "py_alloc \<Rightarrow> 64 word \<Rightarrow> rt \<Rightarrow> (exn + object) \<times> rt" where
  "float_ctor al v s =
     fail_if_null ''Could not allocate float object!'' (PyFloat_FromDouble al v s)"

definition weakref_ctor :: "py_alloc \<Rightarrow> handle \<Rightarrow> handle \<Rightarrow> rt \<Rightarrow> (exn + object) \<times> rt" where
  "weakref_ctor al obj callback s =
     fail_if_null ''Could not allocate weak reference!''
       (PyWeakref_NewRef al (m_ptr obj) (m_ptr callback) s)"

definition capsule_ctor ::
  "py_alloc \<Rightarrow> ptr \<Rightarrow> string option \<Rightarrow> ptr \<Rightarrow> rt \<Rightarrow> (exn + object) \<times> rt" where
  "capsule_ctor al v name destructor s =
     fail_if_null ''Could not allocate capsule object!'' (PyCapsule_New al v name destructor s)"

definition tuple_ctor :: "py_alloc \<Rightarrow> size_t \<Rightarrow> rt \<Rightarrow> (exn + object) \<times> rt" where
  "tuple_ctor al sz s =
     fail_if_null ''Could not allocate tuple object!'' (PyTuple_New al sz s)"

definition dict_ctor :: "py_alloc \<Rightarrow> rt \<Rightarrow> (exn + object) \<times> rt" where
  "dict_ctor al s = fail_if_null ''Could not allocate dict object!'' (PyDict_New al s)"

definition list_ctor :: "py_alloc \<Rightarrow> size_t \<Rightarrow> rt \<Rightarrow> (exn + object) \<times> rt" where
  "list_ctor al sz s =
     fail_if_null ''Could not allocate list object!'' (PyList_New al sz s)"

definition set_ctor :: "py_alloc \<Rightarrow> rt \<Rightarrow> (exn + object) \<times> rt" where
  "set_ctor al s = fail_if_null ''Could not allocate set object!'' (PySet_New al NULL s)"

section \<open>Translating a native exception\<close>

text \<open>
  A handler \<^verbatim>\<open>catch (const T &e)\<close> takes an exception whose class is \<^verbatim>\<open>T\<close> or
  derives from it, and the first handler that matches wins. An exception in flight is
  therefore described by the classes named in the handlers that its own class is or
  derives from, by its \<^verbatim>\<open>what()\<close>, by the slots it holds when it is an
  \<^verbatim>\<open>error_already_set\<close>, and by its \<^verbatim>\<open>set_error()\<close> when it is a
  \<^verbatim>\<open>builtin_exception\<close> (a virtual method, defined by each subclass outside the files
  at hand). Something thrown that is no \<^verbatim>\<open>std::exception\<close> has no class of the list.
\<close>

datatype cpp_class =
    C_error_already_set | C_builtin_exception | C_bad_alloc | C_domain_error
  | C_invalid_argument | C_length_error | C_out_of_range | C_range_error | C_exception

record exception_object =
  classes :: "cpp_class list"
  e_what :: string
  e_held :: error_already_set
  set_error :: "rt \<Rightarrow> rt"

definition catches :: "cpp_class \<Rightarrow> exception_object \<Rightarrow> bool" where
  "catches c e = (c \<in> set (classes e))"

text \<open>A null \<^verbatim>\<open>exception_ptr\<close> is \<open>None\<close>: nothing is rethrown and nothing is set.\<close>

definition translate_exception :: "py_api \<Rightarrow> exception_object option \<Rightarrow> rt \<Rightarrow> rt" where
  "translate_exception api p s =
     (case p of
        None \<Rightarrow> s
      | Some e \<Rightarrow>
          if catches C_error_already_set e then snd (restore (e_held e) s)
          else if catches C_builtin_exception e then set_error e s
          else if catches C_bad_alloc e then PyErr_SetString api (PyExc_MemoryError api) (e_what e) s
          else if catches C_domain_error e then PyErr_SetString api (PyExc_ValueError api) (e_what e) s
          else if catches C_invalid_argument e then PyErr_SetString api (PyExc_ValueError api) (e_what e) s
          else if catches C_length_error e then PyErr_SetString api (PyExc_ValueError api) (e_what e) s
          else if catches C_out_of_range e then PyErr_SetString api (PyExc_IndexError api) (e_what e) s
          else if catches C_range_error e then PyErr_SetString api (PyExc_ValueError api) (e_what e) s
          else if catches C_exception e then PyErr_SetString api (PyExc_RuntimeError api) (e_what e) s
          else PyErr_SetString api (PyExc_RuntimeError api) ''Caught an unknown exception!'' s)"

section \<open>A small runtime to run the layer on\<close>

text \<open>
  The theorems below hold for every runtime. To run the layer on concrete inputs, here is
  one small runtime. An object's attributes, slots or elements still to produce are the
  addresses listed for it in \<open>ob_items\<close>. Raising sets the indicator to a new reference
  to the type and to the value.
\<close>

definition raise_error :: "ptr \<Rightarrow> ptr \<Rightarrow> rt \<Rightarrow> rt" where
  "raise_error t v s = PyErr_Restore t v NULL (Py_XINCREF v (Py_XINCREF t s))"

definition AttributeError :: ptr where
  "AttributeError = 15"

definition SystemError :: ptr where
  "SystemError = 16"

text \<open>A C string names the object at the address of its length.\<close>

definition intern :: "string \<Rightarrow> ptr" where
  "intern name = length name"

definition ref_HasAttr :: "ptr \<Rightarrow> ptr \<Rightarrow> rt \<Rightarrow> int \<times> rt" where
  "ref_HasAttr ob nm s = (if nm \<in> set (ob_items s ob) then 1 else 0, s)"

definition ref_DelAttr :: "ptr \<Rightarrow> ptr \<Rightarrow> rt \<Rightarrow> int \<times> rt" where
  "ref_DelAttr ob nm s =
     (if nm \<in> set (ob_items s ob)
      then (0, Py_XDECREF nm (s\<lparr>ob_items := (ob_items s)(ob := removeAll nm (ob_items s ob))\<rparr>))
      else (- 1, raise_error AttributeError nm s))"

text \<open>The value of an attribute is the name object itself.\<close>

definition ref_GetAttr :: "ptr \<Rightarrow> ptr \<Rightarrow> rt \<Rightarrow> ptr \<times> rt" where
  "ref_GetAttr ob nm s =
     (if nm \<in> set (ob_items s ob) then (nm, Py_XINCREF nm s)
      else (NULL, raise_error AttributeError nm s))"

definition ref_SetAttr :: "ptr \<Rightarrow> ptr \<Rightarrow> ptr \<Rightarrow> rt \<Rightarrow> int \<times> rt" where
  "ref_SetAttr ob nm v s =
     (if ob = NULL then (- 1, raise_error SystemError NULL s)
      else (0, Py_XINCREF nm (s\<lparr>ob_items := (ob_items s)(ob := nm # ob_items s ob)\<rparr>)))"

text \<open>
  The list call takes over the caller's reference to the value, also when it fails; the
  sequence call takes a reference of its own. Both drop the reference to the element that
  was in the slot.
\<close>

definition ref_List_SetItem :: "ptr \<Rightarrow> ssize_t \<Rightarrow> ptr \<Rightarrow> rt \<Rightarrow> int \<times> rt" where
  "ref_List_SetItem ob i v s =
     (if unat i < length (ob_items s ob)
      then (0, Py_XDECREF (ob_items s ob ! unat i)
                 (s\<lparr>ob_items := (ob_items s)(ob := (ob_items s ob)[unat i := v])\<rparr>))
      else (- 1, raise_error (13::nat) NULL (Py_XDECREF v s)))"

text \<open>
  The sequence call counts a negative index from the end, checks the range, and with a
  null value deletes the slot. The tuple call also fails unless the tuple has exactly one
  reference.
\<close>

definition ref_Sequence_SetItem :: "ptr \<Rightarrow> ssize_t \<Rightarrow> ptr \<Rightarrow> rt \<Rightarrow> int \<times> rt" where
  "ref_Sequence_SetItem ob i v s =
     (let xs = ob_items s ob;
          j = (if i <s 0 then i + of_nat (length xs) else i)
      in if ob = NULL then (- 1, raise_error SystemError NULL s)
         else if unat j < length xs
         then (if v = NULL
               then (0, Py_XDECREF (xs ! unat j)
                          (s\<lparr>ob_items := (ob_items s)(ob := take (unat j) xs @ drop (Suc (unat j)) xs)\<rparr>))
               else (0, Py_XDECREF (xs ! unat j)
                          ((Py_XINCREF v s)\<lparr>ob_items := (ob_items s)(ob := xs[unat j := v])\<rparr>)))
         else (- 1, raise_error (13::nat) NULL s))"

definition ref_Tuple_SetItem :: "ptr \<Rightarrow> ssize_t \<Rightarrow> ptr \<Rightarrow> rt \<Rightarrow> int \<times> rt" where
  "ref_Tuple_SetItem ob i v s =
     (if ob_refcnt s ob \<noteq> 1 then (- 1, raise_error SystemError NULL (Py_XDECREF v s))
      else if unat i < length (ob_items s ob)
      then (0, Py_XDECREF (ob_items s ob ! unat i)
                 (s\<lparr>ob_items := (ob_items s)(ob := (ob_items s ob)[unat i := v])\<rparr>))
      else (- 1, raise_error (13::nat) NULL (Py_XDECREF v s)))"

text \<open>
  An iterator produces the elements listed for it, one per call; a null entry stands for
  a fault raised by the producer. An empty list is exhaustion without a fault.
\<close>

definition ref_Iter_Next :: "ptr \<Rightarrow> rt \<Rightarrow> ptr \<times> rt" where
  "ref_Iter_Next p s =
     (case ob_items s p of
        [] \<Rightarrow> (NULL, s)
      | x # xs \<Rightarrow>
          if x = NULL then (NULL, raise_error (14::nat) NULL (s\<lparr>ob_items := (ob_items s)(p := xs)\<rparr>))
          else (x, Py_XINCREF x (s\<lparr>ob_items := (ob_items s)(p := xs)\<rparr>)))"

text \<open>The length of a null object is an error; any other object has its number of items.\<close>

definition ref_Length :: "ptr \<Rightarrow> rt \<Rightarrow> ssize_t \<times> rt" where
  "ref_Length p s =
     (if p = NULL then (- 1, raise_error SystemError NULL s)
      else (of_nat (length (ob_items s p)), s))"

text \<open>The message object of \<^verbatim>\<open>PyErr_SetString\<close> is new, at an address past 1000.\<close>

definition ref_SetString :: "ptr \<Rightarrow> string \<Rightarrow> rt \<Rightarrow> rt" where
  "ref_SetString t msg s =
     PyErr_Restore t (1000 + length msg) NULL
       (Py_XINCREF t (s\<lparr>ob_refcnt := (ob_refcnt s)(1000 + length msg := 1)\<rparr>))"

definition ref_api :: py_api where
  "ref_api =
     \<lparr>error_string = (\<lambda>s. (''error'', s)),
      PyObject_HasAttr = ref_HasAttr,
      PyObject_HasAttrString = (\<lambda>ob name. ref_HasAttr ob (intern name)),
      PyObject_DelAttr = ref_DelAttr,
      PyObject_DelAttrString = (\<lambda>ob name. ref_DelAttr ob (intern name)),
      PyObject_GetAttr = ref_GetAttr,
      PyObject_GetAttrString = (\<lambda>ob name. ref_GetAttr ob (intern name)),
      PyObject_SetAttr = ref_SetAttr,
      PyObject_SetAttrString = (\<lambda>ob name. ref_SetAttr ob (intern name)),
      PySequence_SetItem = ref_Sequence_SetItem,
      PyList_SetItem = ref_List_SetItem,
      PyTuple_SetItem = ref_Tuple_SetItem,
      PyIter_Next = ref_Iter_Next,
      PY_VERSION_HEX = 50790400,
      PyObject_Length = ref_Length,
      PyObject_LengthHint = (\<lambda>p d. ref_Length p),
      PyErr_SetString = ref_SetString,
      PyExc_MemoryError = 11,
      PyExc_ValueError = 12,
      PyExc_IndexError = 13,
      PyExc_RuntimeError = 14\<rparr>"

text \<open>
  A state with no error pending: the exception types at 11 to 16, a container at 20
  holding 21 and 22, a spare object at 23, an empty container at 24, an iterator at 30
  that has produced everything, and an iterator at 31 whose producer faults.
\<close>

definition rt_idle :: rt where
  "rt_idle =
     \<lparr>ob_refcnt = (\<lambda>p. if p \<in> {11, 12, 13, 14, 15, 16, 20, 21, 22, 23, 24, 30, 31} then 1 else 0),
      deallocated = {},
      curexc_type = NULL, curexc_value = NULL, curexc_traceback = NULL,
      ob_items = (\<lambda>p. if p = 20 then [21, 22] else if p = 31 then [NULL] else [])\<rparr>"

text \<open>The same state with an error pending: type 12, value 23, no traceback.\<close>

definition rt_pending :: rt where
  "rt_pending = rt_idle\<lparr>curexc_type := 12, curexc_value := 23\<rparr>"

text \<open>A runtime that is out of memory: every allocation returns null.\<close>

definition oom :: "rt \<Rightarrow> ptr \<times> rt" where
  "oom s = (NULL, raise_error (11::nat) NULL s)"

definition oom_alloc :: py_alloc where
  "oom_alloc =
     \<lparr>PyUnicode_FromStringAndSize = (\<lambda>c n. oom),
      PyUnicode_FromString = (\<lambda>c. oom),
      PYBIND11_BYTES_FROM_STRING = (\<lambda>c. oom),
      PYBIND11_BYTES_FROM_STRING_AND_SIZE = (\<lambda>c n. oom),
      PyLong_FromLong = (\<lambda>v. oom),
      PyFloat_FromDouble = (\<lambda>v. oom),
      PyWeakref_NewRef = (\<lambda>ob cb. oom),
      PyCapsule_New = (\<lambda>v name d. oom),
      PyTuple_New = (\<lambda>n. oom),
      PyDict_New = oom,
      PyList_New = (\<lambda>n. oom),
      PySet_New = (\<lambda>it. oom)\<rparr>"

text \<open>
  \<^verbatim>\<open>pybind11::index_error\<close>, a \<^verbatim>\<open>builtin_exception\<close> (itself a
  \<^verbatim>\<open>std::runtime_error\<close>) whose \<^verbatim>\<open>set_error\<close> sets \<^verbatim>\<open>PyExc_IndexError\<close> with its
  message; and exceptions of the standard library, each with the handler classes it
  derives from.
\<close>

definition no_error_already_set :: error_already_set where
  "no_error_already_set =
     \<lparr>what = [], m_type = handle_null, m_value = handle_null, m_trace = handle_null\<rparr>"

definition index_error :: "py_api \<Rightarrow> string \<Rightarrow> exception_object" where
  "index_error api msg =
     \<lparr>classes = [C_builtin_exception, C_exception], e_what = msg,
      e_held = no_error_already_set,
      set_error = PyErr_SetString api (PyExc_IndexError api) msg\<rparr>"

definition std_exception_of :: "cpp_class list \<Rightarrow> string \<Rightarrow> exception_object" where
  "std_exception_of cs msg =
     \<lparr>classes = cs, e_what = msg, e_held = no_error_already_set, set_error = (\<lambda>s. s)\<rparr>"

definition thrown_error_already_set :: "error_already_set \<Rightarrow> exception_object" where
  "thrown_error_already_set e =
     \<lparr>classes = [C_error_already_set, C_exception], e_what = what e, e_held = e,
      set_error = (\<lambda>s. s)\<rparr>"

text \<open>
  The same runtime with a message helper that normalises the pending error while it
  builds the message: a new exception object, at address 40, takes the place of the
  pending value in the indicator, and the reference to the old value is dropped.
\<close>

definition normalizing_error_string :: "rt \<Rightarrow> string \<times> rt" where
  "normalizing_error_string s =
     (''error'',
      if curexc_type s = NULL then s
      else Py_XDECREF (curexc_value s)
             (s\<lparr>ob_refcnt := (ob_refcnt s)(40 := 1), curexc_value := 40\<rparr>))"

definition normalizing_api :: py_api where
  "normalizing_api = ref_api\<lparr>error_string := normalizing_error_string\<rparr>"

text \<open>An error bridge value holding the error of \<open>rt_pending\<close>.\<close>

definition held_error :: error_already_set where
  "held_error = \<lparr>what = ''error'', m_type = \<lparr>m_ptr = 12\<rparr>, m_value = \<lparr>m_ptr = 23\<rparr>,
     m_trace = \<lparr>m_ptr = NULL\<rparr>\<rparr>"

section \<open>Basic facts about the runtime model\<close>

lemma curexc_Py_XINCREF [simp]:
  "curexc_type (Py_XINCREF p s) = curexc_type s"
  "curexc_value (Py_XINCREF p s) = curexc_value s"
  "curexc_traceback (Py_XINCREF p s) = curexc_traceback s"
  by (simp_all add: Py_XINCREF_def)

lemma curexc_Py_XDECREF [simp]:
  "curexc_type (Py_XDECREF p s) = curexc_type s"
  "curexc_value (Py_XDECREF p s) = curexc_value s"
  "curexc_traceback (Py_XDECREF p s) = curexc_traceback s"
  by (simp_all add: Py_XDECREF_def Let_def)

lemma Py_XINCREF_NULL [simp]: "Py_XINCREF NULL s = s"
  by (simp add: Py_XINCREF_def)

lemma Py_XDECREF_NULL [simp]: "Py_XDECREF NULL s = s"
  by (simp add: Py_XDECREF_def)

lemma curexc_PyErr_Restore [simp]:
  "curexc_type (PyErr_Restore t v tb s) = t"
  "curexc_value (PyErr_Restore t v tb s) = v"
  "curexc_traceback (PyErr_Restore t v tb s) = tb"
  by (simp_all add: PyErr_Restore_def Let_def)

lemma PyErr_Clear_clears [simp]:
  "PyErr_Occurred (PyErr_Clear s) = NULL"
  "curexc_value (PyErr_Clear s) = NULL"
  "curexc_traceback (PyErr_Clear s) = NULL"
  by (simp_all add: PyErr_Clear_def PyErr_Occurred_def)

lemma PyErr_Clear_idle:
  "curexc_type s = NULL \<Longrightarrow> curexc_value s = NULL \<Longrightarrow> curexc_traceback s = NULL \<Longrightarrow>
   PyErr_Clear s = s"
  by (simp add: PyErr_Clear_def PyErr_Restore_def Let_def)

lemma Py_XDECREF_Py_XINCREF:
  "p \<noteq> NULL \<longrightarrow> 0 < ob_refcnt s p \<Longrightarrow> Py_XDECREF p (Py_XINCREF p s) = s"
  by (cases "p = NULL") (simp_all add: Py_XDECREF_def Py_XINCREF_def Let_def)

lemma dec_then_inc_frees:
  "ob_refcnt s p = 1 \<Longrightarrow> p \<noteq> NULL \<Longrightarrow> p \<in> deallocated (Py_XINCREF p (Py_XDECREF p s))"
  by (simp add: Py_XINCREF_def Py_XDECREF_def Let_def)

lemma handle_update [simp]: "(h::handle)\<lparr>m_ptr := p\<rparr> = \<lparr>m_ptr = p\<rparr>"
  by (cases h) simp

lemma m_ptr_iter_value_update [simp]: "m_ptr (it\<lparr>iter_value := v\<rparr>) = m_ptr it"
  by (cases it) simp

lemma iter_value_update_twice [simp]:
  "it\<lparr>iter_value := v, iter_value := w\<rparr> = it\<lparr>iter_value := w\<rparr>"
  by (cases it) simp

lemma curexc_type_ref_SetString [simp]: "curexc_type (ref_SetString t msg s) = t"
  by (simp add: ref_SetString_def)

lemma captured_slots:
  assumes "snd (error_string api s) = s"
  shows "m_ptr (m_type (fst (error_already_set_ctor api s))) = curexc_type s
       \<and> m_ptr (m_value (fst (error_already_set_ctor api s))) = curexc_value s
       \<and> m_ptr (m_trace (fst (error_already_set_ctor api s))) = curexc_traceback s
       \<and> PyErr_Occurred (snd (error_already_set_ctor api s)) = NULL"
  using assms
  by (cases "error_string api s")
     (simp add: error_already_set_ctor_def PyErr_Fetch_def PyErr_Occurred_def)

section \<open>Positional set and the value's reference count\<close>

text \<open>What the calls of the small runtime do to the count of the value they store.\<close>

lemma ref_List_SetItem_count:
  assumes "unat i < length (ob_items s ob)" and "v \<noteq> NULL"
  shows "fst (ref_List_SetItem ob i v s) = 0
       \<and> ob_refcnt (snd (ref_List_SetItem ob i v s)) v
           = ob_refcnt s v - (if ob_items s ob ! unat i = v then 1 else 0)"
  using assms by (simp add: ref_List_SetItem_def Py_XDECREF_def Let_def)

lemma ref_Sequence_SetItem_count:
  assumes "\<not> i <s 0" and "unat i < length (ob_items s ob)" and "v \<noteq> NULL" and "ob \<noteq> NULL"
  shows "fst (ref_Sequence_SetItem ob i v s) = 0
       \<and> ob_refcnt (snd (ref_Sequence_SetItem ob i v s)) v
           = ob_refcnt s v + 1 - (if ob_items s ob ! unat i = v then 1 else 0)"
  using assms
  by (simp add: ref_Sequence_SetItem_def Py_XDECREF_def Py_XINCREF_def Let_def)

text \<open>The index \<^verbatim>\<open>(size_t) -1\<close> reaches the sequence call as \<open>-1\<close>: the last slot.\<close>

lemma sequence_item_set_from_end:
  "fst (sequence_item_set ref_api \<lparr>m_ptr = 20\<rparr> (- 1) \<lparr>m_ptr = 23\<rparr> rt_idle) = Inr ()
   \<and> ob_items (snd (sequence_item_set ref_api \<lparr>m_ptr = 20\<rparr> (- 1) \<lparr>m_ptr = 23\<rparr> rt_idle)) 20
       = [21, 23]"
  by (simp add: sequence_item_set_def ref_api_def ref_Sequence_SetItem_def Py_XINCREF_def
      Py_XDECREF_def rt_idle_def Let_def)

text \<open>
  Claim C1, amended. For a list or tuple object, an index and a value (a non-null handle),
  \<^verbatim>\<open>list_item::set\<close> and \<^verbatim>\<open>tuple_item::set\<close> increment the value's count exactly
  once, and change nothing else, before the runtime's stealing call runs: the call
  starts from the state with that one count raised. \<^verbatim>\<open>sequence_item::set\<close> performs no
  increment of its own: its runtime call starts from the caller's state. So when the
  runtime call succeeds and itself changes the value's count by \<open>d\<close>, the count ends at
  the initial count plus \<open>1 + d\<close> after the list and tuple set, and at the initial count
  plus \<open>d\<close> after the sequence set.
\<close>

theorem positional_set_refcount:
  assumes "m_ptr val \<noteq> NULL"
  shows "inc_ref val s = s\<lparr>ob_refcnt := (ob_refcnt s)(m_ptr val := ob_refcnt s (m_ptr val) + 1)\<rparr>
       \<and> list_item_set api obj i val s =
           (case PyList_SetItem api (m_ptr obj) i (m_ptr val) (inc_ref val s) of (r, s1) \<Rightarrow>
              if r \<noteq> 0 then throw_error_already_set api s1 else (Inr (), s1))
       \<and> tuple_item_set api obj i val s =
           (case PyTuple_SetItem api (m_ptr obj) i (m_ptr val) (inc_ref val s) of (r, s1) \<Rightarrow>
              if r \<noteq> 0 then throw_error_already_set api s1 else (Inr (), s1))
       \<and> sequence_item_set api obj i val s =
           (case PySequence_SetItem api (m_ptr obj) i (m_ptr val) s of (r, s1) \<Rightarrow>
              if r \<noteq> 0 then throw_error_already_set api s1 else (Inr (), s1))
       \<and> (PyList_SetItem api (m_ptr obj) i (m_ptr val) (inc_ref val s) = (0, s') \<and>
          ob_refcnt s' (m_ptr val) = ob_refcnt (inc_ref val s) (m_ptr val) + d \<longrightarrow>
            list_item_set api obj i val s = (Inr (), s') \<and>
            ob_refcnt (snd (list_item_set api obj i val s)) (m_ptr val)
              = ob_refcnt s (m_ptr val) + 1 + d)
       \<and> (PyTuple_SetItem api (m_ptr obj) i (m_ptr val) (inc_ref val s) = (0, s') \<and>
          ob_refcnt s' (m_ptr val) = ob_refcnt (inc_ref val s) (m_ptr val) + d \<longrightarrow>
            tuple_item_set api obj i val s = (Inr (), s') \<and>
            ob_refcnt (snd (tuple_item_set api obj i val s)) (m_ptr val)
              = ob_refcnt s (m_ptr val) + 1 + d)
       \<and> (PySequence_SetItem api (m_ptr obj) i (m_ptr val) s = (0, s') \<and>
          ob_refcnt s' (m_ptr val) = ob_refcnt s (m_ptr val) + d \<longrightarrow>
            sequence_item_set api obj i val s = (Inr (), s') \<and>
            ob_refcnt (snd (sequence_item_set api obj i val s)) (m_ptr val)
              = ob_refcnt s (m_ptr val) + d)"
  using assms
  by (simp add: list_item_set_def tuple_item_set_def sequence_item_set_def inc_ref_def
      Py_XINCREF_def Let_def)

theorem positional_set_witness:
  "m_ptr \<lparr>m_ptr = 23\<rparr> \<noteq> NULL
   \<and> ob_refcnt rt_idle 23 = 1
   \<and> fst (list_item_set ref_api \<lparr>m_ptr = 20\<rparr> 0 \<lparr>m_ptr = 23\<rparr> rt_idle) = Inr ()
   \<and> ob_refcnt (snd (list_item_set ref_api \<lparr>m_ptr = 20\<rparr> 0 \<lparr>m_ptr = 23\<rparr> rt_idle)) 23 = 2
   \<and> ob_items (snd (list_item_set ref_api \<lparr>m_ptr = 20\<rparr> 0 \<lparr>m_ptr = 23\<rparr> rt_idle)) 20
       = [23, 22]
   \<and> fst (tuple_item_set ref_api \<lparr>m_ptr = 20\<rparr> 1 \<lparr>m_ptr = 23\<rparr> rt_idle) = Inr ()
   \<and> ob_refcnt (snd (tuple_item_set ref_api \<lparr>m_ptr = 20\<rparr> 1 \<lparr>m_ptr = 23\<rparr> rt_idle)) 23 = 2
   \<and> fst (sequence_item_set ref_api \<lparr>m_ptr = 20\<rparr> 0 \<lparr>m_ptr = 23\<rparr> rt_idle) = Inr ()
   \<and> ob_refcnt (snd (sequence_item_set ref_api \<lparr>m_ptr = 20\<rparr> 0 \<lparr>m_ptr = 23\<rparr> rt_idle)) 23
       = 1 + 1"
proof -
  let ?v = "\<lparr>m_ptr = 23\<rparr>"
  let ?ob = "\<lparr>m_ptr = 20\<rparr>"
  let ?l = "snd (PyList_SetItem ref_api 20 0 23 (inc_ref ?v rt_idle))"
  let ?t = "snd (PyTuple_SetItem ref_api 20 1 23 (inc_ref ?v rt_idle))"
  let ?q = "snd (PySequence_SetItem ref_api 20 0 23 rt_idle)"
  have h: "m_ptr ?v \<noteq> NULL" by simp
  have n: "ob_refcnt rt_idle 23 = 1" "ob_refcnt rt_idle (m_ptr ?v) = 1"
    by (simp_all add: rt_idle_def)
  have cl: "PyList_SetItem ref_api (m_ptr ?ob) 0 (m_ptr ?v) (inc_ref ?v rt_idle) = (0, ?l)
         \<and> ob_refcnt ?l (m_ptr ?v) = ob_refcnt (inc_ref ?v rt_idle) (m_ptr ?v) + 0"
    by (simp add: ref_api_def ref_List_SetItem_def inc_ref_def Py_XINCREF_def Py_XDECREF_def
        rt_idle_def Let_def)
  have ct: "PyTuple_SetItem ref_api (m_ptr ?ob) 1 (m_ptr ?v) (inc_ref ?v rt_idle) = (0, ?t)
         \<and> ob_refcnt ?t (m_ptr ?v) = ob_refcnt (inc_ref ?v rt_idle) (m_ptr ?v) + 0"
    by (simp add: ref_api_def ref_Tuple_SetItem_def inc_ref_def Py_XINCREF_def Py_XDECREF_def
        rt_idle_def Let_def)
  have cq: "PySequence_SetItem ref_api (m_ptr ?ob) 0 (m_ptr ?v) rt_idle = (0, ?q)
         \<and> ob_refcnt ?q (m_ptr ?v) = ob_refcnt rt_idle (m_ptr ?v) + 1"
    by (simp add: ref_api_def ref_Sequence_SetItem_def Py_XINCREF_def Py_XDECREF_def
        rt_idle_def Let_def)
  from positional_set_refcount [OF h, of rt_idle ref_api ?ob 0 ?l 0] cl
  have rl: "list_item_set ref_api ?ob 0 ?v rt_idle = (Inr (), ?l)"
    "ob_refcnt (snd (list_item_set ref_api ?ob 0 ?v rt_idle)) (m_ptr ?v)
       = ob_refcnt rt_idle (m_ptr ?v) + 1 + 0"
    by blast+
  from positional_set_refcount [OF h, of rt_idle ref_api ?ob 1 ?t 0] ct
  have rt: "tuple_item_set ref_api ?ob 1 ?v rt_idle = (Inr (), ?t)"
    "ob_refcnt (snd (tuple_item_set ref_api ?ob 1 ?v rt_idle)) (m_ptr ?v)
       = ob_refcnt rt_idle (m_ptr ?v) + 1 + 0"
    by blast+
  from positional_set_refcount [OF h, of rt_idle ref_api ?ob 0 ?q 1] cq
  have rq: "sequence_item_set ref_api ?ob 0 ?v rt_idle = (Inr (), ?q)"
    "ob_refcnt (snd (sequence_item_set ref_api ?ob 0 ?v rt_idle)) (m_ptr ?v)
       = ob_refcnt rt_idle (m_ptr ?v) + 1"
    by blast+
  have it: "ob_items ?l 20 = [23, 22]"
    by (simp add: ref_api_def ref_List_SetItem_def inc_ref_def Py_XINCREF_def Py_XDECREF_def
        rt_idle_def Let_def)
  show ?thesis using rl rt rq n it by simp
qed

text \<open>
  The claim as first stated gives the list set a net rise of exactly one and has the
  sequence set leave the count as it was. Storing into slot 0 of the list at 20 the
  element 21 that the slot already holds succeeds and leaves the count of 21 where it
  was: the one increment is taken back when the call drops the slot's old reference.
  The sequence set of the object 23 into the same slot succeeds and leaves the count of
  23 one higher: the runtime call takes a reference of its own.
\<close>

theorem positional_set_counterexample:
  "m_ptr \<lparr>m_ptr = 21\<rparr> \<noteq> NULL
   \<and> ob_items rt_idle 20 ! unat (0 :: size_t) = 21
   \<and> fst (list_item_set ref_api \<lparr>m_ptr = 20\<rparr> 0 \<lparr>m_ptr = 21\<rparr> rt_idle) = Inr ()
   \<and> ob_refcnt (snd (list_item_set ref_api \<lparr>m_ptr = 20\<rparr> 0 \<lparr>m_ptr = 21\<rparr> rt_idle)) 21
       = ob_refcnt rt_idle 21
   \<and> m_ptr \<lparr>m_ptr = 23\<rparr> \<noteq> NULL
   \<and> fst (sequence_item_set ref_api \<lparr>m_ptr = 20\<rparr> 0 \<lparr>m_ptr = 23\<rparr> rt_idle) = Inr ()
   \<and> ob_refcnt (snd (sequence_item_set ref_api \<lparr>m_ptr = 20\<rparr> 0 \<lparr>m_ptr = 23\<rparr> rt_idle)) 23
       = ob_refcnt rt_idle 23 + 1"
  by (simp add: list_item_set_def sequence_item_set_def ref_api_def ref_List_SetItem_def
      ref_Sequence_SetItem_def inc_ref_def Py_XINCREF_def Py_XDECREF_def rt_idle_def Let_def)

section \<open>Constructors and a failed allocation\<close>

text \<open>
  The constructors with a body \<^verbatim>\<open>if (!m_ptr) pybind11_fail(...)\<close> throw when the
  allocation returns null; \<^verbatim>\<open>int_::int_()\<close> returns normally with the null pointer.
\<close>

lemma fail_if_null_NULL:
  "fail_if_null reason (NULL, s) = (Inl (Pybind11_fail reason), s)"
  by (simp add: fail_if_null_def reinterpret_steal_def pybind11_fail_def)

lemma fail_if_null_obj:
  "p \<noteq> NULL \<Longrightarrow> fail_if_null reason (p, s) = (Inr \<lparr>m_ptr = p\<rparr>, s)"
  by (simp add: fail_if_null_def reinterpret_steal_def)

lemma checked_ctors_fail:
  "PyTuple_New al n s = (NULL, s1) \<Longrightarrow>
     tuple_ctor al n s = (Inl (Pybind11_fail ''Could not allocate tuple object!''), s1)"
  "PyList_New al n s = (NULL, s1) \<Longrightarrow>
     list_ctor al n s = (Inl (Pybind11_fail ''Could not allocate list object!''), s1)"
  "PyDict_New al s = (NULL, s1) \<Longrightarrow>
     dict_ctor al s = (Inl (Pybind11_fail ''Could not allocate dict object!''), s1)"
  "PySet_New al NULL s = (NULL, s1) \<Longrightarrow>
     set_ctor al s = (Inl (Pybind11_fail ''Could not allocate set object!''), s1)"
  "PyUnicode_FromStringAndSize al c n s = (NULL, s1) \<Longrightarrow>
     str_ctor_n al c n s = (Inl (Pybind11_fail ''Could not allocate string object!''), s1)"
  "PyUnicode_FromString al c s = (NULL, s1) \<Longrightarrow>
     str_ctor al c s = (Inl (Pybind11_fail ''Could not allocate string object!''), s1)"
  "PYBIND11_BYTES_FROM_STRING al c s = (NULL, s1) \<Longrightarrow>
     bytes_ctor al c s = (Inl (Pybind11_fail ''Could not allocate bytes object!''), s1)"
  "PYBIND11_BYTES_FROM_STRING_AND_SIZE al c n s = (NULL, s1) \<Longrightarrow>
     bytes_ctor_n al c n s = (Inl (Pybind11_fail ''Could not allocate bytes object!''), s1)"
  "PyFloat_FromDouble al v s = (NULL, s1) \<Longrightarrow>
     float_ctor al v s = (Inl (Pybind11_fail ''Could not allocate float object!''), s1)"
  "PyWeakref_NewRef al (m_ptr ob) (m_ptr cb) s = (NULL, s1) \<Longrightarrow>
     weakref_ctor al ob cb s = (Inl (Pybind11_fail ''Could not allocate weak reference!''), s1)"
  "PyCapsule_New al a name d s = (NULL, s1) \<Longrightarrow>
     capsule_ctor al a name d s = (Inl (Pybind11_fail ''Could not allocate capsule object!''), s1)"
  by (simp_all add: tuple_ctor_def list_ctor_def dict_ctor_def set_ctor_def str_ctor_n_def
      str_ctor_def bytes_ctor_def bytes_ctor_n_def float_ctor_def weakref_ctor_def
      capsule_ctor_def fail_if_null_NULL)

lemma int_ctor_unchecked:
  "PyLong_FromLong al 0 s = (NULL, s1) \<Longrightarrow> int_ctor al s = (Inr \<lparr>m_ptr = NULL\<rparr>, s1)"
  by (simp add: int_ctor_def reinterpret_steal_def)

text \<open>
  Claim C2. Every constructor that allocates raises when the allocation returns null.
  In a runtime that is out of memory \<^verbatim>\<open>tuple::tuple\<close> raises, but
  \<^verbatim>\<open>int_::int_()\<close> returns an object that stores the null pointer.
\<close>

theorem int_ctor_stores_null:
  "fst (int_ctor oom_alloc rt_idle) = Inr \<lparr>m_ptr = NULL\<rparr>
   \<and> fst (tuple_ctor oom_alloc 0 rt_idle) = Inl (Pybind11_fail ''Could not allocate tuple object!'')"
  by (simp add: int_ctor_def tuple_ctor_def oom_alloc_def oom_def reinterpret_steal_def
      fail_if_null_NULL)

section \<open>The order of translation\<close>

text \<open>
  Claim C3, amended. \<^verbatim>\<open>translate_exception\<close> maps a fault in this fixed order: an
  \<^verbatim>\<open>error_already_set\<close> is restored as it is; a \<^verbatim>\<open>builtin_exception\<close> sets the
  error of its own \<^verbatim>\<open>set_error()\<close>; \<^verbatim>\<open>bad_alloc\<close> becomes a memory error; domain,
  invalid-argument and length faults become value errors; out-of-range becomes an index
  error; range faults become value errors; any other \<^verbatim>\<open>std::exception\<close> becomes a
  runtime error with its message; anything else becomes a runtime error with the message
  "Caught an unknown exception!".
\<close>

theorem translate_exception_order:
  "translate_exception api (Some e) s =
     (if catches C_error_already_set e
      then PyErr_Restore (m_ptr (m_type (e_held e))) (m_ptr (m_value (e_held e)))
             (m_ptr (m_trace (e_held e))) s
      else if catches C_builtin_exception e then set_error e s
      else if catches C_bad_alloc e then PyErr_SetString api (PyExc_MemoryError api) (e_what e) s
      else if catches C_domain_error e \<or> catches C_invalid_argument e \<or> catches C_length_error e
      then PyErr_SetString api (PyExc_ValueError api) (e_what e) s
      else if catches C_out_of_range e then PyErr_SetString api (PyExc_IndexError api) (e_what e) s
      else if catches C_range_error e then PyErr_SetString api (PyExc_ValueError api) (e_what e) s
      else if catches C_exception e then PyErr_SetString api (PyExc_RuntimeError api) (e_what e) s
      else PyErr_SetString api (PyExc_RuntimeError api) ''Caught an unknown exception!'' s)"
  by (simp add: translate_exception_def restore_def release_def Let_def)

theorem translate_exception_witness:
  "curexc_type (translate_exception ref_api
      (Some (std_exception_of [C_bad_alloc, C_exception] ''m'')) rt_idle) = PyExc_MemoryError ref_api
   \<and> curexc_type (translate_exception ref_api
      (Some (std_exception_of [C_out_of_range, C_exception] ''m'')) rt_idle) = PyExc_IndexError ref_api
   \<and> curexc_type (translate_exception ref_api
      (Some (std_exception_of [C_range_error, C_exception] ''m'')) rt_idle) = PyExc_ValueError ref_api
   \<and> curexc_type (translate_exception ref_api
      (Some (std_exception_of [C_exception] ''m'')) rt_idle) = PyExc_RuntimeError ref_api
   \<and> translate_exception ref_api (Some (std_exception_of [] ''m'')) rt_idle
       = PyErr_SetString ref_api (PyExc_RuntimeError ref_api) ''Caught an unknown exception!'' rt_idle
   \<and> curexc_type (translate_exception ref_api
      (Some (index_error ref_api ''m'')) rt_idle) = PyExc_IndexError ref_api
   \<and> translate_exception ref_api (Some (thrown_error_already_set held_error)) rt_idle
       = PyErr_Restore 12 23 NULL rt_idle"
  using translate_exception_order [of ref_api "std_exception_of [C_bad_alloc, C_exception] ''m''" rt_idle]
    translate_exception_order [of ref_api "std_exception_of [C_out_of_range, C_exception] ''m''" rt_idle]
    translate_exception_order [of ref_api "std_exception_of [C_range_error, C_exception] ''m''" rt_idle]
    translate_exception_order [of ref_api "std_exception_of [C_exception] ''m''" rt_idle]
    translate_exception_order [of ref_api "std_exception_of [] ''m''" rt_idle]
    translate_exception_order [of ref_api "index_error ref_api ''m''" rt_idle]
    translate_exception_order [of ref_api "thrown_error_already_set held_error" rt_idle]
  by (simp add: catches_def std_exception_of_def index_error_def thrown_error_already_set_def
      held_error_def ref_api_def)

text \<open>
  The claim as first stated has no case for \<^verbatim>\<open>builtin_exception\<close> and sends every
  other recognised fault to a runtime error. \<^verbatim>\<open>pybind11::index_error\<close> is none of the
  faults listed before that case, is a \<^verbatim>\<open>std::exception\<close>, and becomes an index
  error.
\<close>

theorem translate_exception_builtin_counterexample:
  "catches C_exception (index_error ref_api ''i'')
   \<and> \<not> catches C_error_already_set (index_error ref_api ''i'')
   \<and> \<not> catches C_bad_alloc (index_error ref_api ''i'')
   \<and> \<not> catches C_domain_error (index_error ref_api ''i'')
   \<and> \<not> catches C_invalid_argument (index_error ref_api ''i'')
   \<and> \<not> catches C_length_error (index_error ref_api ''i'')
   \<and> \<not> catches C_out_of_range (index_error ref_api ''i'')
   \<and> \<not> catches C_range_error (index_error ref_api ''i'')
   \<and> translate_exception ref_api (Some (index_error ref_api ''i'')) rt_idle
       \<noteq> PyErr_SetString ref_api (PyExc_RuntimeError ref_api) (e_what (index_error ref_api ''i'')) rt_idle
   \<and> curexc_type (translate_exception ref_api (Some (index_error ref_api ''i'')) rt_idle) = 13
   \<and> PyExc_RuntimeError ref_api = 14"
proof -
  have a: "curexc_type (translate_exception ref_api (Some (index_error ref_api ''i'')) rt_idle) = 13"
    by (simp add: translate_exception_def catches_def index_error_def ref_api_def)
  have b: "curexc_type (PyErr_SetString ref_api (PyExc_RuntimeError ref_api)
              (e_what (index_error ref_api ''i'')) rt_idle) = 14"
    by (simp add: ref_api_def)
  have c: "translate_exception ref_api (Some (index_error ref_api ''i'')) rt_idle
       \<noteq> PyErr_SetString ref_api (PyExc_RuntimeError ref_api) (e_what (index_error ref_api ''i'')) rt_idle"
    using a b by auto
  show ?thesis using a c
    by (simp add: catches_def index_error_def ref_api_def)
qed

section \<open>Restoring an error twice\<close>

text \<open>
  Claim C4, amended. After \<^verbatim>\<open>restore()\<close> the three slots of the error bridge value
  are null. A second \<^verbatim>\<open>restore()\<close> returns normally, leaves the value as it is and
  hands three null pointers to \<^verbatim>\<open>PyErr_Restore\<close>, so no object goes back to the
  indicator; its effect on the runtime is that of \<^verbatim>\<open>PyErr_Clear\<close>: whatever error is
  pending then is dropped.
\<close>

theorem restore_twice:
  "m_ptr (m_type (fst (restore e s))) = NULL
   \<and> m_ptr (m_value (fst (restore e s))) = NULL
   \<and> m_ptr (m_trace (fst (restore e s))) = NULL
   \<and> what (fst (restore e s)) = what e
   \<and> snd (restore e s)
       = PyErr_Restore (m_ptr (m_type e)) (m_ptr (m_value e)) (m_ptr (m_trace e)) s
   \<and> restore (fst (restore e s)) (snd (restore e s))
       = (fst (restore e s), PyErr_Clear (snd (restore e s)))
   \<and> PyErr_Occurred (PyErr_Clear (snd (restore e s))) = NULL"
  by (simp add: restore_def release_def Let_def PyErr_Clear_def PyErr_Occurred_def)

text \<open>
  The second \<^verbatim>\<open>restore()\<close> is not a no-op: the first call leaves the error pending
  (type 12), the second leaves none.
\<close>

theorem restore_twice_counterexample:
  "curexc_type (snd (restore held_error rt_idle)) = 12
   \<and> curexc_type (snd (restore (fst (restore held_error rt_idle)) (snd (restore held_error rt_idle)))) = NULL
   \<and> snd (restore (fst (restore held_error rt_idle)) (snd (restore held_error rt_idle)))
       \<noteq> snd (restore held_error rt_idle)"
proof -
  have a: "curexc_type (snd (restore held_error rt_idle)) = 12"
    by (simp add: restore_def release_def held_error_def Let_def)
  have b: "curexc_type (snd (restore (fst (restore held_error rt_idle)) (snd (restore held_error rt_idle)))) = NULL"
    by (simp add: restore_def release_def held_error_def Let_def)
  from a b show ?thesis by auto
qed

section \<open>Capture and restore\<close>

text \<open>
  Claim C5, amended. The constructor of \<^verbatim>\<open>error_already_set\<close> first runs the message
  helper \<^verbatim>\<open>detail::error_string()\<close> and then moves the indicator's triple into the
  three slots, clearing the indicator. \<^verbatim>\<open>restore()\<close> right after it puts the runtime
  back into the state the helper left: the indicator holds the type, value and
  traceback objects that were pending when the helper returned, and no count has changed
  since. These are the objects pending before the capture when the helper leaves the
  indicator as it found it.
\<close>

theorem capture_restore_roundtrip:
  "m_ptr (m_type (fst (error_already_set_ctor api s))) = curexc_type (snd (error_string api s))
   \<and> m_ptr (m_value (fst (error_already_set_ctor api s))) = curexc_value (snd (error_string api s))
   \<and> m_ptr (m_trace (fst (error_already_set_ctor api s)))
       = curexc_traceback (snd (error_string api s))
   \<and> PyErr_Occurred (snd (error_already_set_ctor api s)) = NULL
   \<and> snd (restore (fst (error_already_set_ctor api s)) (snd (error_already_set_ctor api s)))
       = snd (error_string api s)
   \<and> (curexc_type (snd (error_string api s)) = curexc_type s
      \<and> curexc_value (snd (error_string api s)) = curexc_value s
      \<and> curexc_traceback (snd (error_string api s)) = curexc_traceback s \<longrightarrow>
        curexc_type (snd (restore (fst (error_already_set_ctor api s))
                            (snd (error_already_set_ctor api s)))) = curexc_type s
      \<and> curexc_value (snd (restore (fst (error_already_set_ctor api s))
                            (snd (error_already_set_ctor api s)))) = curexc_value s
      \<and> curexc_traceback (snd (restore (fst (error_already_set_ctor api s))
                            (snd (error_already_set_ctor api s)))) = curexc_traceback s)"
  by (cases "error_string api s")
     (simp add: error_already_set_ctor_def PyErr_Fetch_def restore_def release_def
        PyErr_Restore_def PyErr_Occurred_def Let_def)

theorem capture_restore_witness:
  "curexc_type (snd (error_string ref_api rt_pending)) = curexc_type rt_pending
   \<and> curexc_value (snd (error_string ref_api rt_pending)) = curexc_value rt_pending
   \<and> curexc_traceback (snd (error_string ref_api rt_pending)) = curexc_traceback rt_pending
   \<and> PyErr_Occurred rt_pending = 12
   \<and> curexc_value rt_pending = 23
   \<and> PyErr_Occurred (snd (error_already_set_ctor ref_api rt_pending)) = NULL
   \<and> curexc_type (snd (restore (fst (error_already_set_ctor ref_api rt_pending))
                         (snd (error_already_set_ctor ref_api rt_pending)))) = 12
   \<and> curexc_value (snd (restore (fst (error_already_set_ctor ref_api rt_pending))
                         (snd (error_already_set_ctor ref_api rt_pending)))) = 23
   \<and> snd (restore (fst (error_already_set_ctor ref_api rt_pending))
            (snd (error_already_set_ctor ref_api rt_pending))) = rt_pending"
proof -
  have h: "snd (error_string ref_api rt_pending) = rt_pending"
    by (simp add: ref_api_def)
  have p: "PyErr_Occurred rt_pending = 12" "curexc_type rt_pending = 12"
    "curexc_value rt_pending = 23"
    by (simp_all add: PyErr_Occurred_def rt_pending_def)
  show ?thesis
    using capture_restore_roundtrip [of ref_api rt_pending] h p by simp
qed

text \<open>
  The claim as first stated has the indicator hold the identical triple as before the
  capture, whatever the constructor does on the way. With a message helper that
  normalises the pending error the value 23 is pending before the capture and the new
  object 40 after the restore.
\<close>

theorem capture_restore_counterexample:
  "PyErr_Occurred rt_pending = 12
   \<and> curexc_value rt_pending = 23
   \<and> curexc_value (snd (restore (fst (error_already_set_ctor normalizing_api rt_pending))
                          (snd (error_already_set_ctor normalizing_api rt_pending)))) = 40"
  by (simp add: error_already_set_ctor_def PyErr_Fetch_def restore_def release_def
      normalizing_api_def normalizing_error_string_def ref_api_def rt_pending_def
      PyErr_Occurred_def Let_def)

section \<open>Exhaustion of the iterator\<close>

lemma advance_exhausted:
  assumes "PyIter_Next api (m_ptr it) s = (NULL, s1)" and "PyErr_Occurred s1 = NULL"
  shows "advance api it s = (Inr (), it\<lparr>iter_value := handle_null\<rparr>, dec_ref (iter_value it) s1)"
  using assms
  by (simp add: advance_def move_assign_def reinterpret_steal_def handle_null_def dec_ref_def
      PyErr_Occurred_def)

lemma advance_fault:
  assumes "PyIter_Next api (m_ptr it) s = (NULL, s1)" and "PyErr_Occurred s1 \<noteq> NULL"
  shows "advance api it s =
     (Inl (Error_already_set (fst (error_already_set_ctor api (dec_ref (iter_value it) s1)))),
      it\<lparr>iter_value := handle_null\<rparr>,
      snd (error_already_set_ctor api (dec_ref (iter_value it) s1)))"
  using assms
  by (simp add: advance_def move_assign_def reinterpret_steal_def handle_null_def dec_ref_def
      PyErr_Occurred_def split: prod.splits)

lemma advance_again:
  assumes "PyIter_Next api (m_ptr it) s = (NULL, s2)" and "PyErr_Occurred s2 = NULL"
  shows "advance api (it\<lparr>iter_value := handle_null\<rparr>) s
           = (Inr (), it\<lparr>iter_value := handle_null\<rparr>, s2)"
  using assms
  by (simp add: advance_def move_assign_def reinterpret_steal_def handle_null_def dec_ref_def
      PyErr_Occurred_def)

lemma eq_sentinel_exhausted:
  assumes "PyIter_Next api (m_ptr it) s = (NULL, s2)" and "PyErr_Occurred s2 = NULL"
  shows "iterator_eq api (it\<lparr>iter_value := handle_null\<rparr>) sentinel s
           = (Inr True, it\<lparr>iter_value := handle_null\<rparr>, sentinel,
              if m_ptr it = NULL then s else s2)"
  using advance_again [OF assms]
  by (simp add: iterator_eq_def deref_def sentinel_def handle_null_def)

text \<open>
  Claim C6. When the runtime's iterator answers \<^verbatim>\<open>PyIter_Next\<close> with null and no
  error is pending, \<^verbatim>\<open>advance()\<close> returns normally and leaves the cache empty. The
  comparison with \<^verbatim>\<open>iterator::sentinel()\<close> reads the cache through
  \<^verbatim>\<open>operator->\<close>, which asks the runtime once more when the cache is empty; when the
  runtime answers that query in the same way, the iterator compares equal to the sentinel
  and advancing again returns normally. When the runtime answers null with an error
  pending, \<^verbatim>\<open>advance()\<close> throws an \<^verbatim>\<open>error_already_set\<close>, which holds the pending
  triple when the message helper leaves the state alone.
\<close>

theorem iterator_exhaustion:
  "(PyIter_Next api (m_ptr it) s = (NULL, s1) \<and> PyErr_Occurred s1 = NULL \<longrightarrow>
      advance api it s = (Inr (), it\<lparr>iter_value := handle_null\<rparr>, dec_ref (iter_value it) s1)
    \<and> (PyIter_Next api (m_ptr it) (dec_ref (iter_value it) s1) = (NULL, s2)
         \<and> PyErr_Occurred s2 = NULL \<longrightarrow>
        iterator_eq api (it\<lparr>iter_value := handle_null\<rparr>) sentinel (dec_ref (iter_value it) s1)
          = (Inr True, it\<lparr>iter_value := handle_null\<rparr>, sentinel,
             if m_ptr it = NULL then dec_ref (iter_value it) s1 else s2)
      \<and> advance api (it\<lparr>iter_value := handle_null\<rparr>) (dec_ref (iter_value it) s1)
          = (Inr (), it\<lparr>iter_value := handle_null\<rparr>, s2)))
   \<and> (PyIter_Next api (m_ptr it) s = (NULL, s1) \<and> PyErr_Occurred s1 \<noteq> NULL \<longrightarrow>
      advance api it s =
        (Inl (Error_already_set (fst (error_already_set_ctor api (dec_ref (iter_value it) s1)))),
         it\<lparr>iter_value := handle_null\<rparr>,
         snd (error_already_set_ctor api (dec_ref (iter_value it) s1)))
    \<and> (snd (error_string api (dec_ref (iter_value it) s1)) = dec_ref (iter_value it) s1 \<longrightarrow>
        m_ptr (m_type (fst (error_already_set_ctor api (dec_ref (iter_value it) s1))))
          = curexc_type s1
      \<and> m_ptr (m_value (fst (error_already_set_ctor api (dec_ref (iter_value it) s1))))
          = curexc_value s1
      \<and> m_ptr (m_trace (fst (error_already_set_ctor api (dec_ref (iter_value it) s1))))
          = curexc_traceback s1))"
proof -
  let ?s = "dec_ref (iter_value it) s1"
  have slots: "curexc_type ?s = curexc_type s1" "curexc_value ?s = curexc_value s1"
    "curexc_traceback ?s = curexc_traceback s1"
    by (simp_all add: dec_ref_def)
  show ?thesis
    using advance_exhausted [of api it s s1] advance_fault [of api it s s1]
      advance_again [of api it ?s s2] eq_sentinel_exhausted [of api it ?s s2]
      captured_slots [of api ?s] slots
    by auto
qed

theorem iterator_exhaustion_witness:
  "PyIter_Next ref_api 30 rt_idle = (NULL, rt_idle)
   \<and> PyErr_Occurred rt_idle = NULL
   \<and> advance ref_api \<lparr>m_ptr = 30, iter_value = \<lparr>m_ptr = 23\<rparr>\<rparr> rt_idle
       = (Inr (), \<lparr>m_ptr = 30, iter_value = \<lparr>m_ptr = NULL\<rparr>\<rparr>, dec_ref \<lparr>m_ptr = 23\<rparr> rt_idle)
   \<and> fst (iterator_eq ref_api \<lparr>m_ptr = 30, iter_value = \<lparr>m_ptr = NULL\<rparr>\<rparr> sentinel
            (dec_ref \<lparr>m_ptr = 23\<rparr> rt_idle)) = Inr True
   \<and> fst (advance ref_api \<lparr>m_ptr = 30, iter_value = \<lparr>m_ptr = NULL\<rparr>\<rparr>
            (dec_ref \<lparr>m_ptr = 23\<rparr> rt_idle)) = Inr ()
   \<and> fst (PyIter_Next ref_api 31 rt_idle) = NULL
   \<and> PyErr_Occurred (snd (PyIter_Next ref_api 31 rt_idle)) = 14
   \<and> fst (advance ref_api \<lparr>m_ptr = 31, iter_value = \<lparr>m_ptr = NULL\<rparr>\<rparr> rt_idle)
       = Inl (Error_already_set (fst (error_already_set_ctor ref_api
                (snd (PyIter_Next ref_api 31 rt_idle)))))
   \<and> m_ptr (m_type (fst (error_already_set_ctor ref_api (snd (PyIter_Next ref_api 31 rt_idle)))))
       = 14"
proof -
  let ?it = "\<lparr>m_ptr = 30, iter_value = \<lparr>m_ptr = 23\<rparr>\<rparr>"
  let ?s = "dec_ref (iter_value ?it) rt_idle"
  let ?ft = "\<lparr>m_ptr = 31, iter_value = \<lparr>m_ptr = NULL\<rparr>\<rparr>"
  let ?f = "snd (PyIter_Next ref_api 31 rt_idle)"
  have a: "PyIter_Next ref_api (m_ptr ?it) rt_idle = (NULL, rt_idle) \<and> PyErr_Occurred rt_idle = NULL"
    by (simp add: ref_api_def ref_Iter_Next_def rt_idle_def PyErr_Occurred_def)
  have b: "PyIter_Next ref_api (m_ptr ?it) ?s = (NULL, ?s) \<and> PyErr_Occurred ?s = NULL"
    by (simp add: ref_api_def ref_Iter_Next_def rt_idle_def PyErr_Occurred_def dec_ref_def
        Py_XDECREF_def Let_def)
  from iterator_exhaustion [of ref_api ?it rt_idle rt_idle ?s] a b
  have r: "advance ref_api ?it rt_idle = (Inr (), ?it\<lparr>iter_value := handle_null\<rparr>, ?s)"
    "iterator_eq ref_api (?it\<lparr>iter_value := handle_null\<rparr>) sentinel ?s
       = (Inr True, ?it\<lparr>iter_value := handle_null\<rparr>, sentinel,
          if m_ptr ?it = NULL then ?s else ?s)"
    "advance ref_api (?it\<lparr>iter_value := handle_null\<rparr>) ?s
       = (Inr (), ?it\<lparr>iter_value := handle_null\<rparr>, ?s)"
    by blast+
  have c: "PyIter_Next ref_api (m_ptr ?ft) rt_idle = (NULL, ?f) \<and> PyErr_Occurred ?f \<noteq> NULL"
    by (simp add: ref_api_def ref_Iter_Next_def rt_idle_def PyErr_Occurred_def raise_error_def)
  have d: "snd (error_string ref_api (dec_ref (iter_value ?ft) ?f)) = dec_ref (iter_value ?ft) ?f"
    by (simp add: ref_api_def)
  have e: "curexc_type ?f = 14" "fst (PyIter_Next ref_api 31 rt_idle) = NULL"
    by (simp_all add: ref_api_def ref_Iter_Next_def rt_idle_def raise_error_def)
  from iterator_exhaustion [of ref_api ?ft rt_idle ?f] c d
  have t: "advance ref_api ?ft rt_idle =
        (Inl (Error_already_set (fst (error_already_set_ctor ref_api (dec_ref (iter_value ?ft) ?f)))),
         ?ft\<lparr>iter_value := handle_null\<rparr>,
         snd (error_already_set_ctor ref_api (dec_ref (iter_value ?ft) ?f)))"
    "m_ptr (m_type (fst (error_already_set_ctor ref_api (dec_ref (iter_value ?ft) ?f))))
       = curexc_type ?f"
    by blast+
  show ?thesis
    using r t a e by (simp add: handle_null_def dec_ref_def PyErr_Occurred_def)
qed

section \<open>Attribute lookup with a default\<close>

text \<open>
  Claim C7. When the attribute lookup returns null, whatever error it left pending,
  both overloads of \<^verbatim>\<open>getattr(obj, name, default_)\<close> return normally an object
  pointing at the default, after clearing the indicator and incrementing the default's
  count.
\<close>

theorem getattr_default_on_failure:
  "(fst (PyObject_GetAttr api (m_ptr obj) (m_ptr name) s) = NULL \<longrightarrow>
      getattr_default api obj name dflt s =
        (Inr \<lparr>m_ptr = m_ptr dflt\<rparr>,
         inc_ref dflt (PyErr_Clear (snd (PyObject_GetAttr api (m_ptr obj) (m_ptr name) s))))
    \<and> PyErr_Occurred (snd (getattr_default api obj name dflt s)) = NULL
    \<and> curexc_value (snd (getattr_default api obj name dflt s)) = NULL
    \<and> curexc_traceback (snd (getattr_default api obj name dflt s)) = NULL)
   \<and> (fst (PyObject_GetAttrString api (m_ptr obj) cname s) = NULL \<longrightarrow>
      getattr_str_default api obj cname dflt s =
        (Inr \<lparr>m_ptr = m_ptr dflt\<rparr>,
         inc_ref dflt (PyErr_Clear (snd (PyObject_GetAttrString api (m_ptr obj) cname s))))
    \<and> PyErr_Occurred (snd (getattr_str_default api obj cname dflt s)) = NULL
    \<and> curexc_value (snd (getattr_str_default api obj cname dflt s)) = NULL
    \<and> curexc_traceback (snd (getattr_str_default api obj cname dflt s)) = NULL)"
  by (simp add: getattr_default_def getattr_str_default_def reinterpret_borrow_def inc_ref_def
      PyErr_Occurred_def PyErr_Clear_def split: prod.splits)

theorem getattr_default_witness:
  "fst (PyObject_GetAttr ref_api 20 23 rt_idle) = NULL
   \<and> PyErr_Occurred (snd (PyObject_GetAttr ref_api 20 23 rt_idle)) = AttributeError
   \<and> fst (getattr_default ref_api \<lparr>m_ptr = 20\<rparr> \<lparr>m_ptr = 23\<rparr> \<lparr>m_ptr = 22\<rparr> rt_idle)
       = Inr \<lparr>m_ptr = 22\<rparr>
   \<and> PyErr_Occurred (snd (getattr_default ref_api \<lparr>m_ptr = 20\<rparr> \<lparr>m_ptr = 23\<rparr> \<lparr>m_ptr = 22\<rparr> rt_idle))
       = NULL
   \<and> fst (PyObject_GetAttrString ref_api 20 ''abc'' rt_idle) = NULL
   \<and> fst (getattr_str_default ref_api \<lparr>m_ptr = 20\<rparr> ''abc'' \<lparr>m_ptr = 22\<rparr> rt_idle)
       = Inr \<lparr>m_ptr = 22\<rparr>
   \<and> PyErr_Occurred (snd (getattr_str_default ref_api \<lparr>m_ptr = 20\<rparr> ''abc'' \<lparr>m_ptr = 22\<rparr> rt_idle))
       = NULL"
proof -
  let ?ob = "\<lparr>m_ptr = 20\<rparr>"
  let ?nm = "\<lparr>m_ptr = 23\<rparr>"
  let ?d = "\<lparr>m_ptr = 22\<rparr>"
  have h1: "fst (PyObject_GetAttr ref_api (m_ptr ?ob) (m_ptr ?nm) rt_idle) = NULL"
    by (simp add: ref_api_def ref_GetAttr_def rt_idle_def)
  have h2: "fst (PyObject_GetAttrString ref_api (m_ptr ?ob) ''abc'' rt_idle) = NULL"
    by (simp add: ref_api_def ref_GetAttr_def rt_idle_def intern_def)
  have p: "PyErr_Occurred (snd (PyObject_GetAttr ref_api 20 23 rt_idle)) = AttributeError"
    by (simp add: ref_api_def ref_GetAttr_def rt_idle_def raise_error_def PyErr_Occurred_def)
  from getattr_default_on_failure [of ref_api ?ob ?nm rt_idle ?d "''abc''"] h1 h2
  have r: "getattr_default ref_api ?ob ?nm ?d rt_idle =
        (Inr \<lparr>m_ptr = m_ptr ?d\<rparr>,
         inc_ref ?d (PyErr_Clear (snd (PyObject_GetAttr ref_api (m_ptr ?ob) (m_ptr ?nm) rt_idle))))"
    "PyErr_Occurred (snd (getattr_default ref_api ?ob ?nm ?d rt_idle)) = NULL"
    "getattr_str_default ref_api ?ob ''abc'' ?d rt_idle =
        (Inr \<lparr>m_ptr = m_ptr ?d\<rparr>,
         inc_ref ?d (PyErr_Clear (snd (PyObject_GetAttrString ref_api (m_ptr ?ob) ''abc'' rt_idle))))"
    "PyErr_Occurred (snd (getattr_str_default ref_api ?ob ''abc'' ?d rt_idle)) = NULL"
    by blast+
  show ?thesis using r h1 h2 p by simp
qed

section \<open>Copy assignment\<close>

text \<open>
  Claim C8. Copy assignment increments the right-hand side's count, then decrements the
  left-hand side's old count. When both hold the same pointer (and the object, being
  held, has a positive count), the assignment leaves the pointer and the whole runtime
  state as they were; the count is one higher in between and stays positive, and
  nothing is deallocated.
\<close>

theorem copy_assign_self:
  assumes same: "m_ptr other = m_ptr this"
    and held: "m_ptr this \<noteq> NULL \<longrightarrow> 0 < ob_refcnt s (m_ptr this)"
  shows "copy_assign this other s = (this, s)
       \<and> copy_assign this other s = (this\<lparr>m_ptr := m_ptr other\<rparr>, dec_ref this (inc_ref other s))
       \<and> (m_ptr this \<noteq> NULL \<longrightarrow>
            ob_refcnt (inc_ref other s) (m_ptr this) = ob_refcnt s (m_ptr this) + 1
          \<and> 0 < ob_refcnt (dec_ref this (inc_ref other s)) (m_ptr this)
          \<and> deallocated (inc_ref other s) = deallocated s
          \<and> deallocated (dec_ref this (inc_ref other s)) = deallocated s)"
proof -
  have undo: "dec_ref this (inc_ref other s) = s"
    using same held by (simp add: dec_ref_def inc_ref_def Py_XDECREF_Py_XINCREF)
  have obj: "this\<lparr>m_ptr := m_ptr other\<rparr> = this"
    using same by simp
  have step: "copy_assign this other s = (this\<lparr>m_ptr := m_ptr other\<rparr>, dec_ref this (inc_ref other s))"
    by (simp add: copy_assign_def Let_def)
  have mid: "m_ptr this \<noteq> NULL \<longrightarrow>
       ob_refcnt (inc_ref other s) (m_ptr this) = ob_refcnt s (m_ptr this) + 1
     \<and> deallocated (inc_ref other s) = deallocated s"
    using same by (simp add: inc_ref_def Py_XINCREF_def)
  show ?thesis
    using step undo obj mid held by simp
qed

theorem copy_assign_self_witness:
  "m_ptr \<lparr>m_ptr = 21\<rparr> = m_ptr \<lparr>m_ptr = 21\<rparr>
   \<and> 0 < ob_refcnt rt_idle 21
   \<and> copy_assign \<lparr>m_ptr = 21\<rparr> \<lparr>m_ptr = 21\<rparr> rt_idle = (\<lparr>m_ptr = 21\<rparr>, rt_idle)
   \<and> ob_refcnt (inc_ref \<lparr>m_ptr = 21\<rparr> rt_idle) 21 = 2
   \<and> deallocated (dec_ref \<lparr>m_ptr = 21\<rparr> (inc_ref \<lparr>m_ptr = 21\<rparr> rt_idle)) = {}"
proof -
  have h: "m_ptr \<lparr>m_ptr = 21\<rparr> \<noteq> NULL \<longrightarrow> 0 < ob_refcnt rt_idle (m_ptr \<lparr>m_ptr = 21\<rparr>)"
    by (simp add: rt_idle_def)
  have d: "deallocated rt_idle = {}" "ob_refcnt rt_idle 21 = 1"
    by (simp_all add: rt_idle_def)
  show ?thesis
    using copy_assign_self [of "\<lparr>m_ptr = 21\<rparr>" "\<lparr>m_ptr = 21\<rparr>" rt_idle, OF refl h] d
    by simp
qed

section \<open>Length and length hint\<close>

text \<open>
  Claim C9. When the length-hint query returns a negative result, \<^verbatim>\<open>len_hint\<close>
  clears the indicator and returns 0, the value it also returns when the query answers 0;
  when the length query returns a negative result, \<^verbatim>\<open>len\<close> raises the error of
  \<^verbatim>\<open>pybind11_fail\<close>.
\<close>

theorem len_hint_swallows_len_fails:
  "(fst (if 50593792 \<le> PY_VERSION_HEX api then PyObject_LengthHint api (m_ptr h) 0 s
         else PyObject_Length api (m_ptr h) s) <s 0 \<longrightarrow>
      len_hint api h s =
        (Inr 0, PyErr_Clear (snd (if 50593792 \<le> PY_VERSION_HEX api
                                  then PyObject_LengthHint api (m_ptr h) 0 s
                                  else PyObject_Length api (m_ptr h) s)))
    \<and> PyErr_Occurred (snd (len_hint api h s)) = NULL)
   \<and> (fst (if 50593792 \<le> PY_VERSION_HEX api then PyObject_LengthHint api (m_ptr h) 0 s
           else PyObject_Length api (m_ptr h) s) = 0 \<longrightarrow>
      fst (len_hint api h s) = Inr 0)
   \<and> (fst (PyObject_Length api (m_ptr h) s) <s 0 \<longrightarrow>
      len api h s = (Inl (Pybind11_fail ''Unable to compute length of object''),
                     snd (PyObject_Length api (m_ptr h) s)))"
  by (simp add: len_hint_def len_def pybind11_fail_def split: prod.splits)

theorem len_hint_witness:
  "fst (PyObject_LengthHint ref_api NULL 0 rt_idle) <s 0
   \<and> fst (len_hint ref_api \<lparr>m_ptr = NULL\<rparr> rt_idle) = Inr 0
   \<and> PyErr_Occurred (snd (len_hint ref_api \<lparr>m_ptr = NULL\<rparr> rt_idle)) = NULL
   \<and> fst (PyObject_LengthHint ref_api 24 0 rt_idle) = 0
   \<and> fst (len_hint ref_api \<lparr>m_ptr = 24\<rparr> rt_idle) = Inr 0
   \<and> fst (PyObject_Length ref_api NULL rt_idle) <s 0
   \<and> fst (len ref_api \<lparr>m_ptr = NULL\<rparr> rt_idle)
       = Inl (Pybind11_fail ''Unable to compute length of object'')"
proof -
  let ?n = "\<lparr>m_ptr = NULL\<rparr>"
  let ?e = "\<lparr>m_ptr = 24\<rparr>"
  have v: "50593792 \<le> PY_VERSION_HEX ref_api"
    by (simp add: ref_api_def)
  have h1: "fst (PyObject_LengthHint ref_api (m_ptr ?n) 0 rt_idle) <s 0"
    by (simp add: ref_api_def ref_Length_def)
  have h2: "fst (PyObject_LengthHint ref_api (m_ptr ?e) 0 rt_idle) = 0"
    by (simp add: ref_api_def ref_Length_def rt_idle_def)
  have h3: "fst (PyObject_Length ref_api (m_ptr ?n) rt_idle) <s 0"
    by (simp add: ref_api_def ref_Length_def)
  from len_hint_swallows_len_fails [of ref_api ?n rt_idle] v h1 h3
  have r1: "fst (len_hint ref_api ?n rt_idle) = Inr 0"
    "PyErr_Occurred (snd (len_hint ref_api ?n rt_idle)) = NULL"
    "fst (len ref_api ?n rt_idle) = Inl (Pybind11_fail ''Unable to compute length of object'')"
    by simp_all
  from len_hint_swallows_len_fails [of ref_api ?e rt_idle] v h2
  have r2: "fst (len_hint ref_api ?e rt_idle) = Inr 0"
    by simp
  show ?thesis using r1 r2 h1 h2 h3 by simp
qed

section \<open>Testing for an attribute\<close>

text \<open>
  Claim C10. Both overloads of \<^verbatim>\<open>hasattr\<close> return normally, true exactly when the
  runtime's check returns 1, so every other answer of the check, an error included, is
  false. \<^verbatim>\<open>delattr\<close>, \<^verbatim>\<open>getattr\<close> and \<^verbatim>\<open>setattr\<close> throw an
  \<^verbatim>\<open>error_already_set\<close> when the runtime call fails.
\<close>

theorem hasattr_never_raises:
  "hasattr api obj name s =
     (Inr (fst (PyObject_HasAttr api (m_ptr obj) (m_ptr name) s) = 1),
      snd (PyObject_HasAttr api (m_ptr obj) (m_ptr name) s))
   \<and> hasattr_str api obj cname s =
     (Inr (fst (PyObject_HasAttrString api (m_ptr obj) cname s) = 1),
      snd (PyObject_HasAttrString api (m_ptr obj) cname s))
   \<and> (fst (PyObject_DelAttr api (m_ptr obj) (m_ptr name) s) \<noteq> 0 \<longrightarrow>
        delattr api obj name s =
          (Inl (Error_already_set (fst (error_already_set_ctor api
                  (snd (PyObject_DelAttr api (m_ptr obj) (m_ptr name) s))))),
           snd (error_already_set_ctor api (snd (PyObject_DelAttr api (m_ptr obj) (m_ptr name) s)))))
   \<and> (fst (PyObject_DelAttrString api (m_ptr obj) cname s) \<noteq> 0 \<longrightarrow>
        delattr_str api obj cname s =
          (Inl (Error_already_set (fst (error_already_set_ctor api
                  (snd (PyObject_DelAttrString api (m_ptr obj) cname s))))),
           snd (error_already_set_ctor api (snd (PyObject_DelAttrString api (m_ptr obj) cname s)))))
   \<and> (fst (PyObject_GetAttr api (m_ptr obj) (m_ptr name) s) = NULL \<longrightarrow>
        getattr api obj name s =
          (Inl (Error_already_set (fst (error_already_set_ctor api
                  (snd (PyObject_GetAttr api (m_ptr obj) (m_ptr name) s))))),
           snd (error_already_set_ctor api (snd (PyObject_GetAttr api (m_ptr obj) (m_ptr name) s)))))
   \<and> (fst (PyObject_GetAttrString api (m_ptr obj) cname s) = NULL \<longrightarrow>
        getattr_str api obj cname s =
          (Inl (Error_already_set (fst (error_already_set_ctor api
                  (snd (PyObject_GetAttrString api (m_ptr obj) cname s))))),
           snd (error_already_set_ctor api (snd (PyObject_GetAttrString api (m_ptr obj) cname s)))))
   \<and> (fst (PyObject_SetAttr api (m_ptr obj) (m_ptr name) (m_ptr val) s) \<noteq> 0 \<longrightarrow>
        setattr api obj name val s =
          (Inl (Error_already_set (fst (error_already_set_ctor api
                  (snd (PyObject_SetAttr api (m_ptr obj) (m_ptr name) (m_ptr val) s))))),
           snd (error_already_set_ctor api
                  (snd (PyObject_SetAttr api (m_ptr obj) (m_ptr name) (m_ptr val) s)))))
   \<and> (fst (PyObject_SetAttrString api (m_ptr obj) cname (m_ptr val) s) \<noteq> 0 \<longrightarrow>
        setattr_str api obj cname val s =
          (Inl (Error_already_set (fst (error_already_set_ctor api
                  (snd (PyObject_SetAttrString api (m_ptr obj) cname (m_ptr val) s))))),
           snd (error_already_set_ctor api
                  (snd (PyObject_SetAttrString api (m_ptr obj) cname (m_ptr val) s)))))"
  by (simp add: hasattr_def hasattr_str_def delattr_def delattr_str_def getattr_def
      getattr_str_def setattr_def setattr_str_def throw_error_already_set_def
      split: prod.splits)

theorem hasattr_witness:
  "hasattr ref_api \<lparr>m_ptr = 20\<rparr> \<lparr>m_ptr = 21\<rparr> rt_idle = (Inr True, rt_idle)
   \<and> hasattr ref_api \<lparr>m_ptr = 20\<rparr> \<lparr>m_ptr = 23\<rparr> rt_idle = (Inr False, rt_idle)
   \<and> hasattr_str ref_api \<lparr>m_ptr = 20\<rparr> ''abc'' rt_idle = (Inr False, rt_idle)
   \<and> fst (PyObject_DelAttr ref_api 20 23 rt_idle) \<noteq> 0
   \<and> fst (delattr ref_api \<lparr>m_ptr = 20\<rparr> \<lparr>m_ptr = 23\<rparr> rt_idle)
       = Inl (Error_already_set (fst (error_already_set_ctor ref_api
                (snd (PyObject_DelAttr ref_api 20 23 rt_idle)))))
   \<and> fst (PyObject_GetAttr ref_api 20 23 rt_idle) = NULL
   \<and> fst (getattr ref_api \<lparr>m_ptr = 20\<rparr> \<lparr>m_ptr = 23\<rparr> rt_idle)
       = Inl (Error_already_set (fst (error_already_set_ctor ref_api
                (snd (PyObject_GetAttr ref_api 20 23 rt_idle)))))
   \<and> fst (PyObject_SetAttr ref_api NULL 23 21 rt_idle) \<noteq> 0
   \<and> fst (setattr ref_api \<lparr>m_ptr = NULL\<rparr> \<lparr>m_ptr = 23\<rparr> \<lparr>m_ptr = 21\<rparr> rt_idle)
       = Inl (Error_already_set (fst (error_already_set_ctor ref_api
                (snd (PyObject_SetAttr ref_api NULL 23 21 rt_idle)))))"
proof -
  let ?ob = "\<lparr>m_ptr = 20\<rparr>"
  let ?nm = "\<lparr>m_ptr = 23\<rparr>"
  let ?n = "\<lparr>m_ptr = NULL\<rparr>"
  let ?v = "\<lparr>m_ptr = 21\<rparr>"
  have q: "PyObject_HasAttr ref_api 20 21 rt_idle = (1, rt_idle)"
    "PyObject_HasAttr ref_api 20 23 rt_idle = (0, rt_idle)"
    "PyObject_HasAttrString ref_api 20 ''abc'' rt_idle = (0, rt_idle)"
    by (simp_all add: ref_api_def ref_HasAttr_def rt_idle_def intern_def)
  have h: "fst (PyObject_DelAttr ref_api (m_ptr ?ob) (m_ptr ?nm) rt_idle) \<noteq> 0"
    "fst (PyObject_GetAttr ref_api (m_ptr ?ob) (m_ptr ?nm) rt_idle) = NULL"
    by (simp_all add: ref_api_def ref_DelAttr_def ref_GetAttr_def rt_idle_def)
  have k: "fst (PyObject_SetAttr ref_api (m_ptr ?n) (m_ptr ?nm) (m_ptr ?v) rt_idle) \<noteq> 0"
    by (simp add: ref_api_def ref_SetAttr_def)
  from hasattr_never_raises [of ref_api ?ob ?v rt_idle "''abc''" ?v] q
  have r1: "hasattr ref_api ?ob ?v rt_idle = (Inr True, rt_idle)"
    "hasattr_str ref_api ?ob ''abc'' rt_idle = (Inr False, rt_idle)"
    by simp_all
  from hasattr_never_raises [of ref_api ?ob ?nm rt_idle "''abc''" ?v] q h
  have r2: "hasattr ref_api ?ob ?nm rt_idle = (Inr False, rt_idle)"
    "fst (delattr ref_api ?ob ?nm rt_idle)
       = Inl (Error_already_set (fst (error_already_set_ctor ref_api
                (snd (PyObject_DelAttr ref_api 20 23 rt_idle)))))"
    "fst (getattr ref_api ?ob ?nm rt_idle)
       = Inl (Error_already_set (fst (error_already_set_ctor ref_api
                (snd (PyObject_GetAttr ref_api 20 23 rt_idle)))))"
    by simp_all
  from hasattr_never_raises [of ref_api ?n ?nm rt_idle "''abc''" ?v] k
  have r3: "fst (setattr ref_api ?n ?nm ?v rt_idle)
       = Inl (Error_already_set (fst (error_already_set_ctor ref_api
                (snd (PyObject_SetAttr ref_api NULL 23 21 rt_idle)))))"
    by simp
  show ?thesis using r1 r2 r3 h k by simp
qed

end
